theory Spec2Isabelle
  imports Complex_Main "HOL-Library.Multiset" "HOL-Library.AList"
    "HOL-Library.Char_ord" "HOL-Library.List_Lexorder"
begin

section \<open>Robust statistics (insights/dataQuality.ts)\<close>

text \<open>
  JavaScript numbers are modelled as real numbers. Where the source can produce a value
  that is not a number (\<open>undefined\<close> read past the end of an array, \<open>NaN\<close> from
  \<open>0 / 0\<close>) the model returns \<open>None\<close>; every other result is \<open>Some\<close> real.
  \<open>[...values].sort((a, b) => a - b)\<close> is ascending order, \<^const>\<open>sort\<close>.
\<close>

definition median :: "real list \<Rightarrow> real" where
  "median values =
     (if length values = 0 then 0
      else let sorted = sort values; mid = length sorted div 2
           in if length sorted mod 2 \<noteq> 0 then sorted ! mid
              else (sorted ! (mid - 1) + sorted ! mid) / 2)"

definition medianAbsoluteDeviation :: "real list \<Rightarrow> real" where
  "medianAbsoluteDeviation values =
     (if length values = 0 then 0
      else let med = median values; deviations = map (\<lambda>v. \<bar>v - med\<bar>) values
           in median deviations)"

definition robustZScore :: "real \<Rightarrow> real \<Rightarrow> real \<Rightarrow> real" where
  "robustZScore v med mad = (if mad = 0 then 0 else (v - med) / (mad / 0.6745))"

text \<open>\<open>sorted[i]\<close> for a computed index: \<open>undefined\<close> outside the array.\<close>

definition at_index :: "real list \<Rightarrow> int \<Rightarrow> real option" where
  "at_index xs i = (if 0 \<le> i \<and> i < int (length xs) then Some (xs ! nat i) else None)"

definition percentile :: "real list \<Rightarrow> real \<Rightarrow> real option" where
  "percentile values p =
     (if length values = 0 then Some 0
      else let sorted = sort values;
               index = (p / 100) * (real (length sorted) - 1);
               lower = \<lfloor>index\<rfloor>;
               upper = \<lceil>index\<rceil>
           in if lower = upper then at_index sorted lower
              else (case (at_index sorted lower, at_index sorted upper) of
                      (Some l, Some u) \<Rightarrow>
                        Some (l * (real_of_int upper - index) + u * (index - real_of_int lower))
                    | _ \<Rightarrow> None))"

text \<open>\<open>values.reduce((a, b) => a + b, 0) / values.length\<close>: \<open>NaN\<close> on the empty list.\<close>

definition sample_mean :: "real list \<Rightarrow> real option" where
  "sample_mean values =
     (if length values = 0 then None
      else Some (foldl (+) 0 values / real (length values)))"

record MetricBaseline =
  bl_metric :: string
  bl_median :: real
  bl_mad :: real
  bl_mean :: "real option"
  bl_stdDev :: "real option"
  bl_low :: real
  bl_high :: real
  bl_p25 :: "real option"
  bl_p75 :: "real option"
  bl_sampleSize :: nat
  bl_excludedCount :: nat

definition DEFAULT_MAD_THRESHOLD :: real where
  "DEFAULT_MAD_THRESHOLD = 3.5"

definition calculateBaseline :: "real list \<Rightarrow> string \<Rightarrow> bool \<Rightarrow> real \<Rightarrow> MetricBaseline" where
  "calculateBaseline values metric excludeOutliers madThreshold =
     (if length values = 0 then
        \<lparr> bl_metric = metric, bl_median = 0, bl_mad = 0, bl_mean = Some 0, bl_stdDev = Some 0,
          bl_low = 0, bl_high = 0, bl_p25 = Some 0, bl_p75 = Some 0,
          bl_sampleSize = 0, bl_excludedCount = 0 \<rparr>
      else
        let med = median values;
            mad = medianAbsoluteDeviation values;
            filteredValues =
              (if excludeOutliers \<and> mad > 0
               then filter (\<lambda>v. \<bar>robustZScore v med mad\<bar> \<le> madThreshold) values
               else values);
            excludedCount =
              (if excludeOutliers \<and> mad > 0 then length values - length filteredValues else 0);
            finalMedian = median filteredValues;
            finalMad = medianAbsoluteDeviation filteredValues;
            mean_v = sample_mean filteredValues;
            variance =
              (case mean_v of
                 None \<Rightarrow> None
               | Some m \<Rightarrow>
                   Some (foldl (\<lambda>s v. s + (v - m) ^ 2) 0 filteredValues
                         / real (length filteredValues)));
            stdDev = map_option sqrt variance
        in \<lparr> bl_metric = metric, bl_median = finalMedian, bl_mad = finalMad,
             bl_mean = mean_v, bl_stdDev = stdDev,
             bl_low = finalMedian - 2 * finalMad, bl_high = finalMedian + 2 * finalMad,
             bl_p25 = percentile filteredValues 25, bl_p75 = percentile filteredValues 75,
             bl_sampleSize = length filteredValues, bl_excludedCount = excludedCount \<rparr>)"

section \<open>Canonical records (types/schema.ts)\<close>

text \<open>
  Every stored record carries its key \<open>id\<close> (named \<open>id_rec\<close> here, \<open>id\<close> being the
  identity function of HOL); the canonical record kinds also carry \<open>userId\<close>,
  \<open>sourceId\<close> and \<open>date\<close>. An optional field (\<open>f?: number\<close>) is an \<open>option\<close>,
  \<open>None\<close> standing for \<open>undefined\<close>. \<open>durationSeconds\<close> is typed \<open>number\<close>,
  but the quality check tests it for \<open>undefined\<close>, so it is optional here too.
  \<open>vendorData\<close> is an open bag of values.
\<close>

datatype vval =
    VStr string | VNum real | VBool bool | VNull | VList "vval list"
  | VObj "(string \<times> vval) list"

text \<open>JavaScript truthiness, as \<open>filter(Boolean)\<close> applies it.\<close>

fun truthy :: "vval \<Rightarrow> bool" where
  "truthy (VStr s) = (s \<noteq> [])"
| "truthy (VNum x) = (x \<noteq> 0)"
| "truthy (VBool b) = b"
| "truthy VNull = False"
| "truthy (VList vs) = True"
| "truthy (VObj kvs) = True"

record DataQualityFlags =
  isComplete :: bool
  hasOutliers :: bool
  outlierFields :: "string list"
  sensorGaps :: int
  manuallyExcluded :: bool
  exclusionReason :: "string option"

record Keyed =
  id_rec :: string

record CanonicalRecord = Keyed +
  userId :: string
  sourceId :: string
  date :: string

record SleepSession = CanonicalRecord +
  startedAt :: string
  endedAt :: string
  durationSeconds :: "real option"
  timeInBedSeconds :: real
  deepSeconds :: real
  remSeconds :: real
  lightSeconds :: real
  awakeSeconds :: real
  sleepOnsetLatency :: "real option"
  wakeAfterSleepOnset :: "real option"
  efficiency :: "real option"
  avgHeartRate :: "real option"
  minHeartRate :: "real option"
  maxHeartRate :: "real option"
  avgHrv :: "real option"
  avgRespiratoryRate :: "real option"
  avgBedTempC :: "real option"
  avgRoomTempC :: "real option"
  dataQuality :: DataQualityFlags
  vendorData :: "(string \<rightharpoonup> vval) option"

section \<open>Completeness score and merge (importers/pipeline.ts)\<close>

text \<open>\<open>x && x > 0\<close> on an optional number: defined, non-zero and positive.\<close>

definition positive :: "real option \<Rightarrow> bool" where
  "positive x = (case x of None \<Rightarrow> False | Some v \<Rightarrow> v \<noteq> 0 \<and> v > 0)"

definition getSessionCompleteness :: "SleepSession \<Rightarrow> nat" where
  "getSessionCompleteness session =
     (if (case durationSeconds session of None \<Rightarrow> False | Some d \<Rightarrow> d > 0) then 10 else 0)
   + (if deepSeconds session > 0 then 5 else 0)
   + (if remSeconds session > 0 then 5 else 0)
   + (if lightSeconds session > 0 then 5 else 0)
   + (if awakeSeconds session > 0 then 2 else 0)
   + (if positive (minHeartRate session) then 5 else 0)
   + (if positive (avgHrv session) then 5 else 0)
   + (if (case efficiency session of None \<Rightarrow> False
          | Some e \<Rightarrow> e \<noteq> 0 \<and> e > 0 \<and> e \<le> 100) then 3 else 0)
   + (if positive (avgRespiratoryRate session) then 3 else 0)
   + (if avgBedTempC session \<noteq> None then 2 else 0)"

text \<open>
  \<open>a || b\<close> keeps \<open>a\<close> when it is truthy: a number other than 0, and defined.
  \<open>a ?? b\<close> keeps \<open>a\<close> when it is defined.
\<close>

definition or_num :: "real \<Rightarrow> real \<Rightarrow> real" where
  "or_num a b = (if a \<noteq> 0 then a else b)"

definition or_opt :: "real option \<Rightarrow> real option \<Rightarrow> real option" where
  "or_opt a b = (case a of None \<Rightarrow> b | Some v \<Rightarrow> if v \<noteq> 0 then a else b)"

definition nullish :: "real option \<Rightarrow> real option \<Rightarrow> real option" where
  "nullish a b = (case a of None \<Rightarrow> b | Some v \<Rightarrow> a)"

text \<open>\<open>e && e <= 100\<close> on an optional efficiency.\<close>

definition usable_efficiency :: "real option \<Rightarrow> bool" where
  "usable_efficiency e = (case e of None \<Rightarrow> False | Some v \<Rightarrow> v \<noteq> 0 \<and> v \<le> 100)"

text \<open>\<open>s.vendorData?.source\<close>.\<close>

definition vendor_source :: "SleepSession \<Rightarrow> vval option" where
  "vendor_source s = (case vendorData s of None \<Rightarrow> None | Some vd \<Rightarrow> vd ''source'')"

text \<open>\<open>{...vd}\<close> of an optional object: nothing is spread from \<open>undefined\<close>.\<close>

definition spread :: "(string \<rightharpoonup> vval) option \<Rightarrow> (string \<rightharpoonup> vval)" where
  "spread vd = (case vd of None \<Rightarrow> Map.empty | Some m \<Rightarrow> m)"

text \<open>\<open>[a, b].filter(Boolean)\<close> on two optional values.\<close>

definition truthy_values :: "vval option list \<Rightarrow> vval list" where
  "truthy_values vs = concat (map (\<lambda>v. case v of None \<Rightarrow> [] | Some x \<Rightarrow> if truthy x then [x] else []) vs)"

definition merge_base :: "SleepSession \<Rightarrow> SleepSession \<Rightarrow> SleepSession" where
  "merge_base existing incoming =
     (if getSessionCompleteness existing \<ge> getSessionCompleteness incoming
      then existing else incoming)"

definition merge_supplement :: "SleepSession \<Rightarrow> SleepSession \<Rightarrow> SleepSession" where
  "merge_supplement existing incoming =
     (if getSessionCompleteness existing \<ge> getSessionCompleteness incoming
      then incoming else existing)"

definition mergeSessions :: "SleepSession \<Rightarrow> SleepSession \<Rightarrow> SleepSession" where
  "mergeSessions existing incoming =
     (let base = merge_base existing incoming;
          supplement = merge_supplement existing incoming
      in base\<lparr>
           deepSeconds := or_num (deepSeconds base) (deepSeconds supplement),
           remSeconds := or_num (remSeconds base) (remSeconds supplement),
           lightSeconds := or_num (lightSeconds base) (lightSeconds supplement),
           awakeSeconds := or_num (awakeSeconds base) (awakeSeconds supplement),
           minHeartRate := or_opt (minHeartRate base) (minHeartRate supplement),
           avgHeartRate := or_opt (avgHeartRate base) (avgHeartRate supplement),
           avgHrv := or_opt (avgHrv base) (avgHrv supplement),
           avgRespiratoryRate := or_opt (avgRespiratoryRate base) (avgRespiratoryRate supplement),
           avgBedTempC := nullish (avgBedTempC base) (avgBedTempC supplement),
           avgRoomTempC := nullish (avgRoomTempC base) (avgRoomTempC supplement),
           efficiency :=
             (if usable_efficiency (efficiency base) then efficiency base
              else if usable_efficiency (efficiency supplement) then efficiency supplement
              else efficiency base),
           vendorData :=
             Some ((spread (vendorData supplement) ++ spread (vendorData base))
                     (''mergedSources'' \<mapsto>
                        VList (truthy_values [vendor_source base, vendor_source supplement])))
         \<rparr>)"

section \<open>Deduplication against stored sessions (importers/pipeline.ts)\<close>

text \<open>
  A JavaScript \<open>Map\<close> keeps its keys in insertion order and \<open>set\<close> on a present key
  replaces the value in place: an association list under \<^const>\<open>AList.update\<close>, read
  with \<^const>\<open>map_of\<close>.
\<close>

type_synonym session_map = "(string \<times> SleepSession) list"

text \<open>The first loop: per date, the most complete stored session of the user.\<close>

definition existing_step :: "string \<Rightarrow> session_map \<Rightarrow> SleepSession \<Rightarrow> session_map" where
  "existing_step uid existingByDate session =
     (if userId session = uid then
        (case map_of existingByDate (date session) of
           None \<Rightarrow> AList.update (date session) session existingByDate
         | Some existing \<Rightarrow>
             if getSessionCompleteness session > getSessionCompleteness existing
             then AList.update (date session) session existingByDate
             else existingByDate)
      else existingByDate)"

definition existingByDate :: "SleepSession list \<Rightarrow> string \<Rightarrow> session_map" where
  "existingByDate existingSessions uid = foldl (existing_step uid) [] existingSessions"

text \<open>The second loop: incoming sessions of one date are merged pairwise.\<close>

definition incoming_step :: "session_map \<Rightarrow> SleepSession \<Rightarrow> session_map" where
  "incoming_step incomingByDate session =
     (case map_of incomingByDate (date session) of
        Some existing \<Rightarrow> AList.update (date session) (mergeSessions existing session) incomingByDate
      | None \<Rightarrow> AList.update (date session) session incomingByDate)"

definition incomingByDate :: "SleepSession list \<Rightarrow> session_map" where
  "incomingByDate sessions = foldl incoming_step [] sessions"

record DedupResult =
  sessions :: "SleepSession list"
  mergedCount :: nat
  skippedCount :: nat

text \<open>The third loop: each incoming date against the stored session of that date.\<close>

definition dedup_step :: "session_map \<Rightarrow> DedupResult \<Rightarrow> string \<times> SleepSession \<Rightarrow> DedupResult" where
  "dedup_step existingMap acc entry =
     (case map_of existingMap (fst entry) of
        Some existing \<Rightarrow>
          if getSessionCompleteness (snd entry) > getSessionCompleteness existing
          then acc\<lparr> sessions := sessions acc @ [(mergeSessions existing (snd entry))\<lparr>id_rec := id_rec existing\<rparr>],
                    mergedCount := mergedCount acc + 1 \<rparr>
          else acc\<lparr> skippedCount := skippedCount acc + 1 \<rparr>
      | None \<Rightarrow> acc\<lparr> sessions := sessions acc @ [snd entry] \<rparr>)"

text \<open>
  \<open>deduplicateSessions\<close> reads the table with \<open>getAll('sleepSessions')\<close>; what
  that call returns is the first argument.
\<close>

definition deduplicateSessions :: "SleepSession list \<Rightarrow> SleepSession list \<Rightarrow> string \<Rightarrow> DedupResult" where
  "deduplicateSessions existingSessions incoming uid =
     foldl (dedup_step (existingByDate existingSessions uid))
       \<lparr> sessions = [], mergedCount = 0, skippedCount = 0 \<rparr>
       (incomingByDate incoming)"

section \<open>Sample sessions\<close>

definition defaultQualityFlags :: DataQualityFlags where
  "defaultQualityFlags =
     \<lparr> isComplete = True, hasOutliers = False, outlierFields = [], sensorGaps = 0,
       manuallyExcluded = False, exclusionReason = None \<rparr>"

text \<open>A night with stage data and HRV whose efficiency is out of range (150) and whose
  respiratory rate is the number 0.\<close>

definition sample_rich :: SleepSession where
  "sample_rich =
     \<lparr> id_rec = ''rich-1'', userId = ''u1'', sourceId = ''src-a'', date = ''2024-03-01'',
       startedAt = ''2024-03-01T23:00:00.000Z'', endedAt = ''2024-03-02T07:00:00.000Z'',
       durationSeconds = Some 28800, timeInBedSeconds = 28800,
       deepSeconds = 5400, remSeconds = 6000, lightSeconds = 17400, awakeSeconds = 0,
       sleepOnsetLatency = None, wakeAfterSleepOnset = None, efficiency = Some 150,
       avgHeartRate = None, minHeartRate = None, maxHeartRate = None, avgHrv = Some 55,
       avgRespiratoryRate = Some 0, avgBedTempC = None, avgRoomTempC = Some 19,
       dataQuality = defaultQualityFlags,
       vendorData = Some [''source'' \<mapsto> VStr ''Oura''] \<rparr>"

text \<open>The same night from a sparser source: no stage data, but awake time, minimum heart
  rate and a valid efficiency.\<close>

definition sample_sparse :: SleepSession where
  "sample_sparse =
     \<lparr> id_rec = ''sparse-1'', userId = ''u1'', sourceId = ''src-b'', date = ''2024-03-01'',
       startedAt = ''2024-03-01T23:10:00.000Z'', endedAt = ''2024-03-02T07:00:00.000Z'',
       durationSeconds = Some 27000, timeInBedSeconds = 28200,
       deepSeconds = 0, remSeconds = 0, lightSeconds = 0, awakeSeconds = 1200,
       sleepOnsetLatency = None, wakeAfterSleepOnset = None, efficiency = Some 90,
       avgHeartRate = None, minHeartRate = Some 48, maxHeartRate = None, avgHrv = None,
       avgRespiratoryRate = None, avgBedTempC = None, avgRoomTempC = Some 21,
       dataQuality = defaultQualityFlags,
       vendorData = Some [''source'' \<mapsto> VStr ''Eight Sleep''] \<rparr>"

section \<open>Reconciliation of one incoming date, in the claim's words\<close>

text \<open>
  The claim's words for the third loop, to be compared with the code: the stored sessions
  of a user and date; the most complete of them (the first one on ties); and what happens
  to one incoming date.
\<close>

definition stored_for :: "SleepSession list \<Rightarrow> string \<Rightarrow> string \<Rightarrow> SleepSession list" where
  "stored_for store uid d = filter (\<lambda>e. userId e = uid \<and> date e = d) store"

fun most_complete :: "SleepSession list \<Rightarrow> SleepSession option" where
  "most_complete [] = None"
| "most_complete (e # es) =
     (case most_complete es of
        None \<Rightarrow> Some e
      | Some b \<Rightarrow> if getSessionCompleteness b > getSessionCompleteness e then Some b else Some e)"

datatype outcome = AddNew SleepSession | Skip | Update SleepSession

definition reconcile :: "SleepSession list \<Rightarrow> string \<Rightarrow> string \<times> SleepSession \<Rightarrow> outcome" where
  "reconcile store uid entry =
     (case most_complete (stored_for store uid (fst entry)) of
        None \<Rightarrow> AddNew (snd entry)
      | Some existing \<Rightarrow>
          if getSessionCompleteness existing \<ge> getSessionCompleteness (snd entry) then Skip
          else Update ((mergeSessions existing (snd entry))\<lparr>id_rec := id_rec existing\<rparr>))"

fun emitted :: "outcome \<Rightarrow> SleepSession list" where
  "emitted (AddNew s) = [s]"
| "emitted Skip = []"
| "emitted (Update s) = [s]"

fun is_update :: "outcome \<Rightarrow> bool" where
  "is_update (Update s) = True"
| "is_update _ = False"

text \<open>
  The claim's words for the second loop: the incoming dates, in the order in which they
  first appear, and the merge of the sessions of one date, from left to right.
\<close>

definition incoming_dates :: "SleepSession list \<Rightarrow> string list" where
  "incoming_dates incoming = rev (remdups (rev (map date incoming)))"

fun merge_all :: "SleepSession list \<Rightarrow> SleepSession option" where
  "merge_all [] = None"
| "merge_all (s # ss) = Some (foldl mergeSessions s ss)"

text \<open>A store with a sparse night and a full night, and four incoming sessions of three
  nights.\<close>

definition sample_store :: "SleepSession list" where
  "sample_store = [sample_sparse, sample_rich\<lparr>id_rec := ''full-3'', date := ''2024-03-03''\<rparr>]"

definition sample_incoming :: "SleepSession list" where
  "sample_incoming =
     [sample_rich\<lparr>id_rec := ''in-1''\<rparr>,
      sample_sparse\<lparr>id_rec := ''in-2'', date := ''2024-03-02''\<rparr>,
      sample_sparse\<lparr>id_rec := ''in-3'', date := ''2024-03-03''\<rparr>,
      sample_rich\<lparr>id_rec := ''in-4'', date := ''2024-03-02''\<rparr>]"

section \<open>Sleep session quality check (insights/dataQuality.ts)\<close>

text \<open>The table \<open>HARD_LIMITS\<close>: the key of a range, and the range as (min, max).\<close>

datatype limitKey =
    L_heartRate | L_minHeartRate | L_maxHeartRate | L_hrv | L_respiratoryRate
  | L_sleepDuration | L_deepPercent | L_remPercent | L_bodyTemp | L_roomTemp
  | L_workoutDuration | L_calories

fun HARD_LIMITS :: "limitKey \<Rightarrow> real \<times> real" where
  "HARD_LIMITS L_heartRate = (25, 220)"
| "HARD_LIMITS L_minHeartRate = (25, 120)"
| "HARD_LIMITS L_maxHeartRate = (40, 220)"
| "HARD_LIMITS L_hrv = (5, 300)"
| "HARD_LIMITS L_respiratoryRate = (4, 40)"
| "HARD_LIMITS L_sleepDuration = (30 * 60, 16 * 60 * 60)"
| "HARD_LIMITS L_deepPercent = (0, 60)"
| "HARD_LIMITS L_remPercent = (0, 60)"
| "HARD_LIMITS L_bodyTemp = (15, 45)"
| "HARD_LIMITS L_roomTemp = (-10, 50)"
| "HARD_LIMITS L_workoutDuration = (60, 8 * 60 * 60)"
| "HARD_LIMITS L_calories = (0, 5000)"

datatype violation_kind = below_min | above_max

record HardLimitViolation =
  v_field :: string
  v_value :: real
  v_limit :: "real \<times> real"
  v_violation :: violation_kind

definition checkHardLimits :: "real option \<Rightarrow> string \<Rightarrow> limitKey \<Rightarrow> HardLimitViolation option" where
  "checkHardLimits v field limitKey =
     (case v of
        None \<Rightarrow> None
      | Some x \<Rightarrow>
          let limits = HARD_LIMITS limitKey
          in if x < fst limits then
               Some \<lparr> v_field = field, v_value = x, v_limit = limits, v_violation = below_min \<rparr>
             else if x > snd limits then
               Some \<lparr> v_field = field, v_value = x, v_limit = limits, v_violation = above_max \<rparr>
             else None)"

datatype quality = good | warning | bad

text \<open>\<open>'include'\<close> is \<open>include_session\<close> here (\<open>include\<close> is a keyword).\<close>

datatype action = include_session | exclude_from_baseline | flag_for_review

record SleepQualityReport =
  r_session :: SleepSession
  r_hardLimitViolations :: "HardLimitViolation list"
  r_outlierFields :: "string list"
  r_isComplete :: bool
  r_missingFields :: "string list"
  overallQuality :: quality
  suggestedAction :: action

record limit_check =
  c_value :: "real option"
  c_field :: string
  c_limitKey :: limitKey
  c_required :: bool

definition checks :: "SleepSession \<Rightarrow> limit_check list" where
  "checks session =
     [\<lparr> c_value = minHeartRate session, c_field = ''minHeartRate'', c_limitKey = L_minHeartRate, c_required = False \<rparr>,
      \<lparr> c_value = avgHeartRate session, c_field = ''avgHeartRate'', c_limitKey = L_heartRate, c_required = False \<rparr>,
      \<lparr> c_value = maxHeartRate session, c_field = ''maxHeartRate'', c_limitKey = L_maxHeartRate, c_required = False \<rparr>,
      \<lparr> c_value = avgHrv session, c_field = ''avgHrv'', c_limitKey = L_hrv, c_required = False \<rparr>,
      \<lparr> c_value = avgRespiratoryRate session, c_field = ''avgRespiratoryRate'', c_limitKey = L_respiratoryRate, c_required = False \<rparr>,
      \<lparr> c_value = durationSeconds session, c_field = ''durationSeconds'', c_limitKey = L_sleepDuration, c_required = True \<rparr>,
      \<lparr> c_value = avgBedTempC session, c_field = ''avgBedTempC'', c_limitKey = L_bodyTemp, c_required = False \<rparr>,
      \<lparr> c_value = avgRoomTempC session, c_field = ''avgRoomTempC'', c_limitKey = L_roomTemp, c_required = False \<rparr>]"

text \<open>One round of the loop over the checks: the violations and the missing fields so far.\<close>

definition check_step ::
  "HardLimitViolation list \<times> string list \<Rightarrow> limit_check \<Rightarrow> HardLimitViolation list \<times> string list" where
  "check_step acc c =
     (case c_value c of
        None \<Rightarrow> (fst acc, if c_required c then snd acc @ [c_field c] else snd acc)
      | Some x \<Rightarrow>
          (case checkHardLimits (Some x) (c_field c) (c_limitKey c) of
             Some violation \<Rightarrow> (fst acc @ [violation], snd acc)
           | None \<Rightarrow> acc))"

definition stage_violations :: "SleepSession \<Rightarrow> HardLimitViolation list" where
  "stage_violations session =
     (let totalSleep = deepSeconds session + remSeconds session + lightSeconds session
      in if totalSleep > 0 then
           (let deepPct = (deepSeconds session / totalSleep) * 100;
                remPct = (remSeconds session / totalSleep) * 100
            in (case checkHardLimits (Some deepPct) ''deepPercent'' L_deepPercent of
                  Some v \<Rightarrow> [v] | None \<Rightarrow> [])
             @ (case checkHardLimits (Some remPct) ''remPercent'' L_remPercent of
                  Some v \<Rightarrow> [v] | None \<Rightarrow> []))
         else [])"

type_synonym baseline = "string \<rightharpoonup> real \<times> real"

definition metricsToCheck :: "SleepSession \<Rightarrow> (string \<times> real option) list" where
  "metricsToCheck session =
     [(''avgHrv'', avgHrv session),
      (''minHeartRate'', minHeartRate session),
      (''avgRespiratoryRate'', avgRespiratoryRate session),
      (''durationSeconds'', durationSeconds session)]"

definition outlier_step :: "baseline \<Rightarrow> real \<Rightarrow> string list \<Rightarrow> string \<times> real option \<Rightarrow> string list" where
  "outlier_step b madThreshold acc entry =
     (case (snd entry, b (fst entry)) of
        (Some x, Some (med, mad)) \<Rightarrow>
          if \<bar>robustZScore x med mad\<bar> > madThreshold then acc @ [fst entry] else acc
      | _ \<Rightarrow> acc)"

definition checkSleepSessionQuality ::
  "SleepSession \<Rightarrow> baseline option \<Rightarrow> real \<Rightarrow> SleepQualityReport" where
  "checkSleepSessionQuality session b madThreshold =
     (let looped = foldl check_step ([], []) (checks session);
          hardLimitViolations = fst looped @ stage_violations session;
          missingFields = snd looped;
          outlierFields =
            (case b of
               None \<Rightarrow> []
             | Some bl \<Rightarrow> foldl (outlier_step bl madThreshold) [] (metricsToCheck session));
          isComplete = (length missingFields = 0)
      in \<lparr> r_session = session,
           r_hardLimitViolations = hardLimitViolations,
           r_outlierFields = outlierFields,
           r_isComplete = isComplete,
           r_missingFields = missingFields,
           overallQuality =
             (if length hardLimitViolations > 0 then bad
              else if length outlierFields \<ge> 2 then warning
              else if length outlierFields = 1 \<or> \<not> isComplete then warning
              else good),
           suggestedAction =
             (if length hardLimitViolations > 0 then exclude_from_baseline
              else if length outlierFields \<ge> 2 then flag_for_review
              else if length outlierFields = 1 \<or> \<not> isComplete then include_session
              else include_session) \<rparr>)"

text \<open>
  The claim's words: a value outside its range of the table; a session with at least one
  hard-limit violation; a metric that is a statistical outlier against a baseline.
\<close>

definition outside :: "real option \<Rightarrow> limitKey \<Rightarrow> bool" where
  "outside v k = (case v of None \<Rightarrow> False
                  | Some x \<Rightarrow> x < fst (HARD_LIMITS k) \<or> x > snd (HARD_LIMITS k))"

definition hard_violation :: "SleepSession \<Rightarrow> bool" where
  "hard_violation s =
     (outside (minHeartRate s) L_minHeartRate \<or> outside (avgHeartRate s) L_heartRate \<or>
      outside (maxHeartRate s) L_maxHeartRate \<or> outside (avgHrv s) L_hrv \<or>
      outside (avgRespiratoryRate s) L_respiratoryRate \<or>
      outside (durationSeconds s) L_sleepDuration \<or>
      outside (avgBedTempC s) L_bodyTemp \<or> outside (avgRoomTempC s) L_roomTemp \<or>
      (deepSeconds s + remSeconds s + lightSeconds s > 0 \<and>
       (outside (Some (deepSeconds s / (deepSeconds s + remSeconds s + lightSeconds s) * 100)) L_deepPercent \<or>
        outside (Some (remSeconds s / (deepSeconds s + remSeconds s + lightSeconds s) * 100)) L_remPercent)))"

definition statistical_outlier :: "baseline option \<Rightarrow> real \<Rightarrow> string \<times> real option \<Rightarrow> bool" where
  "statistical_outlier b madThreshold entry =
     (case (b, snd entry) of
        (Some bl, Some x) \<Rightarrow>
          (case bl (fst entry) of
             None \<Rightarrow> False
           | Some (med, mad) \<Rightarrow> \<bar>robustZScore x med mad\<bar> > madThreshold)
      | _ \<Rightarrow> False)"

definition outlier_fields :: "SleepSession \<Rightarrow> baseline option \<Rightarrow> real \<Rightarrow> string list" where
  "outlier_fields s b madThreshold =
     map fst (filter (statistical_outlier b madThreshold) (metricsToCheck s))"

text \<open>A personal baseline for HRV and minimum heart rate, as (median, MAD).\<close>

definition sample_baseline :: baseline where
  "sample_baseline = [''avgHrv'' \<mapsto> (50, 5), ''minHeartRate'' \<mapsto> (60, 1)]"

section \<open>Eight Sleep raw sessions (importers/eightSleep.ts)\<close>

text \<open>
  A JavaScript \<open>Date\<close> is a number of milliseconds since the epoch, or invalid
  (\<open>None\<close>) beyond 8.64e15 ms either way; a number given to the constructor is
  truncated to an integer. Local time is UTC plus the zone's offset, taken as a constant
  number of seconds east of UTC (a zone without a daylight-saving change in the night
  at hand).
\<close>

type_synonym jsdate = "int option"

definition time_clip :: "real \<Rightarrow> jsdate" where
  "time_clip t =
     (if \<bar>t\<bar> > 8640000000000000 then None
      else Some (if t \<ge> 0 then \<lfloor>t\<rfloor> else \<lceil>t\<rceil>))"

definition getHours :: "int \<Rightarrow> int \<Rightarrow> int" where
  "getHours tz ms = ((ms + tz * 1000) mod 86400000) div 3600000"

text \<open>\<open>d.setDate(d.getDate() - 1)\<close>: the same local time one calendar day earlier.\<close>

definition previous_day :: "int \<Rightarrow> jsdate" where
  "previous_day ms = time_clip (real_of_int (ms - 86400000))"

text \<open>The civil date (year, month, day) of a day number counted from 1970-01-01.\<close>

definition civil_from_days :: "int \<Rightarrow> int \<times> int \<times> int" where
  "civil_from_days days =
     (let z = days + 719468;
          era = z div 146097;
          doe = z - era * 146097;
          yoe = (doe - doe div 1460 + doe div 36524 - doe div 146096) div 365;
          doy = doe - (365 * yoe + yoe div 4 - yoe div 100);
          mp = (5 * doy + 2) div 153;
          d = doy - (153 * mp + 2) div 5 + 1;
          m = (if mp < 10 then mp + 3 else mp - 9);
          y = yoe + era * 400 + (if m \<le> 2 then 1 else 0)
      in (y, m, d))"

definition digit_char :: "nat \<Rightarrow> char" where
  "digit_char d = ''0123456789'' ! (d mod 10)"

definition pad2 :: "nat \<Rightarrow> string" where
  "pad2 n = [digit_char (n div 10), digit_char n]"

definition pad3 :: "nat \<Rightarrow> string" where
  "pad3 n = [digit_char (n div 100), digit_char (n div 10), digit_char n]"

definition pad4 :: "nat \<Rightarrow> string" where
  "pad4 n = [digit_char (n div 1000), digit_char (n div 100), digit_char (n div 10), digit_char n]"

definition pad6 :: "nat \<Rightarrow> string" where
  "pad6 n = [digit_char (n div 100000), digit_char (n div 10000)] @ pad4 n"

definition year_string :: "int \<Rightarrow> string" where
  "year_string y =
     (if 0 \<le> y \<and> y \<le> 9999 then pad4 (nat y)
      else (if y < 0 then ''-'' else ''+'') @ pad6 (nat \<bar>y\<bar>))"

definition iso_date :: "int \<Rightarrow> string" where
  "iso_date ms =
     (case civil_from_days (ms div 86400000) of
        (y, m, d) \<Rightarrow> year_string y @ ''-'' @ pad2 (nat m) @ ''-'' @ pad2 (nat d))"

definition iso_time :: "int \<Rightarrow> string" where
  "iso_time ms =
     (let t = nat (ms mod 86400000)
      in pad2 (t div 3600000) @ '':'' @ pad2 (t div 60000 mod 60) @ '':''
         @ pad2 (t div 1000 mod 60) @ ''.'' @ pad3 (t mod 1000) @ ''Z'')"

datatype js_error = RangeError

text \<open>\<open>toISOString\<close> throws a \<open>RangeError\<close> on an invalid date.\<close>

definition toISOString :: "jsdate \<Rightarrow> js_error + string" where
  "toISOString d =
     (case d of None \<Rightarrow> Inl RangeError
      | Some ms \<Rightarrow> Inr (iso_date ms @ ''T'' @ iso_time ms))"

text \<open>\<open>s.toISOString().split('T')[0]\<close>.\<close>

definition iso_day :: "jsdate \<Rightarrow> js_error + string" where
  "iso_day d = (case d of None \<Rightarrow> Inl RangeError | Some ms \<Rightarrow> Inr (iso_date ms))"

record EightSleepStage =
  stage :: string
  duration :: real

record EightSleepTimeseries =
  heartRate :: "(real \<times> real option) list option"
  hrv :: "(real \<times> real option) list option"
  respiratoryRate :: "(real \<times> real option) list option"
  tempBedC :: "(real \<times> real option) list option"
  tempRoomC :: "(real \<times> real option) list option"
  tnt :: "(real \<times> real option) list option"

record EightSleepSession =
  ts :: int
  stages :: "EightSleepStage list option"
  timeseries :: "EightSleepTimeseries option"

record StageTotals =
  awake :: real
  light :: real
  deep :: real
  rem :: real
  out :: real

text \<open>
  \<open>if (stage.stage in stageTotals) stageTotals[stage.stage] += stage.duration\<close>: a name
  other than the five buckets leaves all five as they are.
\<close>

definition add_stage :: "StageTotals \<Rightarrow> EightSleepStage \<Rightarrow> StageTotals" where
  "add_stage totals st =
     (if stage st = ''awake'' then totals\<lparr>awake := awake totals + duration st\<rparr>
      else if stage st = ''light'' then totals\<lparr>light := light totals + duration st\<rparr>
      else if stage st = ''deep'' then totals\<lparr>deep := deep totals + duration st\<rparr>
      else if stage st = ''rem'' then totals\<lparr>rem := rem totals + duration st\<rparr>
      else if stage st = ''out'' then totals\<lparr>out := out totals + duration st\<rparr>
      else totals)"

definition extractTimeseriesValues :: "(real \<times> real option) list option \<Rightarrow> real list" where
  "extractTimeseriesValues data =
     (case data of None \<Rightarrow> []
      | Some points \<Rightarrow> List.map_filter snd points)"

text \<open>The \<open>mean\<close> of eightSleep.ts: 0 on the empty list.\<close>

definition mean :: "real list \<Rightarrow> real" where
  "mean values = (if length values = 0 then 0 else foldl (+) 0 values / real (length values))"

definition series :: "EightSleepSession \<Rightarrow> (EightSleepTimeseries \<Rightarrow> (real \<times> real option) list option)
    \<Rightarrow> (real \<times> real option) list option" where
  "series raw f = (case timeseries raw of None \<Rightarrow> None | Some t \<Rightarrow> f t)"

definition stage_value :: "EightSleepStage \<Rightarrow> vval" where
  "stage_value st = VObj [(''stage'', VStr (stage st)), (''duration'', VNum (duration st))]"

text \<open>The loop over \<open>raw.stages\<close>.\<close>

definition stage_totals :: "EightSleepStage list \<Rightarrow> StageTotals" where
  "stage_totals sts = foldl add_stage \<lparr> awake = 0, light = 0, deep = 0, rem = 0, out = 0 \<rparr> sts"

text \<open>\<open>startedAt = new Date(raw.ts * 1000)\<close> and
  \<open>endedAt = new Date(startedAt.getTime() + timeInBedSeconds * 1000)\<close>.\<close>

definition startedAt_date :: "EightSleepSession \<Rightarrow> jsdate" where
  "startedAt_date raw = time_clip (real_of_int (ts raw * 1000))"

definition endedAt_date :: "EightSleepSession \<Rightarrow> real \<Rightarrow> jsdate" where
  "endedAt_date raw timeInBed =
     (case startedAt_date raw of
        None \<Rightarrow> None
      | Some ms \<Rightarrow> time_clip (real_of_int ms + timeInBed * 1000))"

text \<open>
  The date of the session: a copy of \<open>startedAt\<close>, moved one day back when its local
  hour is before 6, printed by \<open>toISOString\<close> and cut at the \<open>T\<close>.
\<close>

definition session_date :: "int \<Rightarrow> EightSleepSession \<Rightarrow> js_error + string" where
  "session_date tz raw =
     (case startedAt_date raw of
        None \<Rightarrow> Inl RangeError
      | Some ms \<Rightarrow> iso_day (if getHours tz ms < 6 then previous_day ms else Some ms))"

text \<open>The object that \<open>transformRawSession\<close> returns, from the values computed before.\<close>

definition session_record ::
  "string \<Rightarrow> string \<Rightarrow> string \<Rightarrow> EightSleepSession \<Rightarrow> EightSleepStage list \<Rightarrow> StageTotals
     \<Rightarrow> string \<Rightarrow> string \<Rightarrow> string \<Rightarrow> SleepSession" where
  "session_record newId uid srcId raw sts stageTotals date_s started_s ended_s =
     (let sleepSeconds = light stageTotals + deep stageTotals + rem stageTotals;
          timeInBed = sleepSeconds + awake stageTotals;
          hrValues = extractTimeseriesValues (series raw heartRate);
          hrvValues = extractTimeseriesValues (series raw hrv);
          rrValues = extractTimeseriesValues (series raw respiratoryRate);
          bedTempValues = extractTimeseriesValues (series raw tempBedC);
          roomTempValues = extractTimeseriesValues (series raw tempRoomC)
      in \<lparr> id_rec = newId, userId = uid, sourceId = srcId, date = date_s,
           startedAt = started_s, endedAt = ended_s,
           durationSeconds = Some sleepSeconds, timeInBedSeconds = timeInBed,
           deepSeconds = deep stageTotals, remSeconds = rem stageTotals,
           lightSeconds = light stageTotals, awakeSeconds = awake stageTotals,
           sleepOnsetLatency = None,
           wakeAfterSleepOnset = Some (awake stageTotals),
           efficiency = (if timeInBed > 0 then Some ((sleepSeconds / timeInBed) * 100) else None),
           avgHeartRate = (if length hrValues > 0 then Some (mean hrValues) else None),
           minHeartRate = (if length hrValues > 0 then Some (Min (set hrValues)) else None),
           maxHeartRate = (if length hrValues > 0 then Some (Max (set hrValues)) else None),
           avgHrv = (if length hrvValues > 0 then Some (mean hrvValues) else None),
           avgRespiratoryRate = (if length rrValues > 0 then Some (mean rrValues) else None),
           avgBedTempC = (if length bedTempValues > 0 then Some (mean bedTempValues) else None),
           avgRoomTempC = (if length roomTempValues > 0 then Some (mean roomTempValues) else None),
           dataQuality = defaultQualityFlags,
           vendorData = Some [''originalTimestamp'' \<mapsto> VNum (real_of_int (ts raw)),
                              ''rawStages'' \<mapsto> VList (map stage_value sts)] \<rparr>)"

text \<open>
  \<open>transformRawSession\<close>; the zone offset \<open>tz\<close> of the machine and the identifier that
  \<open>generateId()\<close> returns are arguments. The three calls of \<open>toISOString\<close> run in the
  order of the source, and the first that throws ends the call.
\<close>

definition transformRawSession ::
  "int \<Rightarrow> string \<Rightarrow> EightSleepSession \<Rightarrow> string \<Rightarrow> string \<Rightarrow> js_error + SleepSession option" where
  "transformRawSession tz newId raw srcId uid =
     (case stages raw of
        None \<Rightarrow> Inr None
      | Some sts \<Rightarrow>
          if length sts = 0 then Inr None
          else
            let stageTotals = stage_totals sts;
                sleepSeconds = light stageTotals + deep stageTotals + rem stageTotals;
                timeInBed = sleepSeconds + awake stageTotals
            in if sleepSeconds < 3 * 60 * 60 then Inr None
               else
                 (case session_date tz raw of
                    Inl e \<Rightarrow> Inl e
                  | Inr date_s \<Rightarrow>
                      (case toISOString (startedAt_date raw) of
                         Inl e \<Rightarrow> Inl e
                       | Inr started_s \<Rightarrow>
                           (case toISOString (endedAt_date raw timeInBed) of
                              Inl e \<Rightarrow> Inl e
                            | Inr ended_s \<Rightarrow>
                                Inr (Some (session_record newId uid srcId raw sts stageTotals
                                             date_s started_s ended_s))))))"

text \<open>The summed seconds of one stage name, in the claim's words.\<close>

definition stage_seconds :: "string \<Rightarrow> EightSleepStage list \<Rightarrow> real" where
  "stage_seconds name sts = sum_list (map duration (filter (\<lambda>st. stage st = name) sts))"

text \<open>
  The night-of rule in the claim's words: the local calendar day of the start, and the
  day before it when the local start hour is before 6.
\<close>

definition night_of :: "int \<Rightarrow> int \<Rightarrow> string" where
  "night_of tz ts_s =
     (let local_ms = ts_s * 1000 + tz * 1000;
          local_hour = (local_ms mod 86400000) div 3600000
      in iso_date (if local_hour < 6 then local_ms - 86400000 else local_ms))"

text \<open>Scenario B of the specification: the stages of the raw session, and the raw session
  starting at a given unix time.\<close>

definition scenario_stages :: "EightSleepStage list" where
  "scenario_stages =
     [\<lparr> stage = ''deep'', duration = 1800 \<rparr>, \<lparr> stage = ''rem'', duration = 900 \<rparr>,
      \<lparr> stage = ''light'', duration = 10800 \<rparr>, \<lparr> stage = ''awake'', duration = 300 \<rparr>]"

definition scenario_night :: "int \<Rightarrow> EightSleepSession" where
  "scenario_night start = \<lparr> ts = start, stages = Some scenario_stages, timeseries = None \<rparr>"

text \<open>
  The other stored record kinds. A field whose name a sleep session already uses carries
  a prefix (\<open>w_\<close> workout, \<open>m_\<close> metric, \<open>t_\<close> time series, \<open>s_\<close> source).
\<close>

datatype WorkoutType =
    strength | cardio | hiit | running | cycling | walking | swimming | yoga | other_workout

record WorkoutSession = CanonicalRecord +
  w_startedAt :: string
  w_endedAt :: "string option"
  w_durationSeconds :: real
  workoutType :: WorkoutType
  workoutSubtype :: "string option"
  calories :: "real option"
  w_avgHeartRate :: "real option"
  w_maxHeartRate :: "real option"
  distance :: "real option"
  distanceUnit :: "string option"
  w_dataQuality :: DataQualityFlags
  w_vendorData :: "(string \<rightharpoonup> vval) option"

record DailyMetric = CanonicalRecord +
  metricType :: string
  m_value :: real
  unit :: string
  m_dataQuality :: DataQualityFlags

record TimeSeries = Keyed +
  t_userId :: string
  t_sourceId :: string
  sessionId :: "string option"
  t_metricType :: string
  t_startedAt :: string
  intervalSeconds :: real
  t_values :: "real option list"
  gapCount :: nat
  interpolatedCount :: nat

datatype VendorType =
    eight_sleep | oura | orangetheory | whoop | apple_health | garmin | fitbit
  | generic_csv | generic_json | unknown


record RecordCounts =
  n_sleepSessions :: nat
  n_workoutSessions :: nat
  n_dailyMetrics :: nat
  n_timeSeries :: nat

record Source = Keyed +
  s_userId :: string
  s_vendor :: VendorType
  s_fileName :: string
  s_fileHash :: string
  s_fileSizeBytes :: nat
  s_importedAt :: string
  s_importerProfileId :: string
  s_recordCounts :: RecordCounts

section \<open>The record store (db/database.ts)\<close>




record Database =
  sources :: "Source list"
  sleepSessions :: "SleepSession list"
  workoutSessions :: "WorkoutSession list"
  dailyMetrics :: "DailyMetric list"
  timeSeries :: "TimeSeries list"

section \<open>Import results (importers/pipeline.ts)\<close>

datatype file_type = json_file | csv_file | zip_file | xml_file | unknown_file


datatype confidence = high | medium | low

record FileDetectionResult =
  fileType :: file_type
  suggestedVendor :: VendorType
  detection_confidence :: confidence

record ImportFile =
  f_name :: string
  f_size :: nat
  f_type :: string
  f_content :: string

text \<open>What a \<open>throw\<close> carries: an \<open>Error\<close> with its message, or any other value.\<close>

datatype exn = Error string | Thrown



datatype warning_type = missing_field | outlier | w_parse_error | duplicate

record ImportWarning =
  w_type :: warning_type
  w_message :: string
  w_recordIndex :: "nat option"
  w_field :: "string option"



datatype progress_stage = detecting | parsing | transforming | validating | storing | complete

record ImporterProfile =
  p_id :: string
  p_vendor :: VendorType
  p_name :: string










section \<open>The import pipeline (importers/pipeline.ts)\<close>

text \<open>
  What \<open>importFile\<close> calls and does not compute itself is an argument of the model, the
  environment of one run: the progress callback (per stage, whether it throws), file
  detection, \<open>JSON.parse\<close>, the hash, the identifier that \<open>generateId()\<close> returns to
  \<open>importFile\<close>, the clock, the Apple Health XML parser, the vendor transformers behind
  \<open>transformData\<close>, and for each store operation whether it fails. Each of them can
  throw (\<open>Inl\<close>).
\<close>

record PreParsedData =
  pp_sleepSessions :: "SleepSession list"
  pp_workoutSessions :: "WorkoutSession list"
  pp_dailyMetrics :: "DailyMetric list option"
  pp_sources :: "string list"
  pp_sourceId :: "string option"

text \<open>Parsed JSON: \<open>isAppleHealthPreParsed\<close> holds of the first form only.\<close>

datatype json_data = AppleHealthPreParsed PreParsedData | OtherJson

datatype parsed_data = ParsedJson json_data | ParsedCsv

fun isAppleHealthPreParsed :: "json_data \<Rightarrow> bool" where
  "isAppleHealthPreParsed (AppleHealthPreParsed d) = True"
| "isAppleHealthPreParsed OtherJson = False"

record AppleHealthImportResult =
  a_sleepSessions :: "SleepSession list"
  a_workoutSessions :: "WorkoutSession list"
  a_dailyMetrics :: "DailyMetric list"
  a_sources :: "string list"

record TransformResult =
  tr_sleepSessions :: "SleepSession list"
  tr_workoutSessions :: "WorkoutSession list"
  tr_timeSeries :: "TimeSeries list"
  tr_warnings :: "ImportWarning list"

datatype db_op =
    GetAll_sleepSessions | GetByIndex_sources | Put_sources | PutMany_sleepSessions
  | PutMany_workoutSessions | PutMany_dailyMetrics | PutMany_timeSeries

record env =
  onProgress :: "progress_stage \<Rightarrow> exn option"
  detectFileType :: "ImportFile \<Rightarrow> exn + FileDetectionResult"
  JSON_parse :: "string \<Rightarrow> exn + json_data"
  sha256 :: "string \<Rightarrow> exn + string"
  generateId :: string
  now :: string
  parseAppleHealthXML :: "string \<Rightarrow> string \<Rightarrow> string \<Rightarrow> exn + AppleHealthImportResult"
  transformData :: "parsed_data \<Rightarrow> ImporterProfile \<Rightarrow> string \<Rightarrow> string \<Rightarrow> exn + TransformResult"
  db_fails :: "db_op \<Rightarrow> exn option"

text \<open>
  A step of the pipeline takes the database and returns a value or an exception,
  together with the database as the step leaves it: a write that happened before an
  exception stays.
\<close>

type_synonym 'a io = "Database \<Rightarrow> (exn + 'a) \<times> Database"

definition io_return :: "'a \<Rightarrow> 'a io" where
  "io_return x = (\<lambda>db. (Inr x, db))"

definition io_throw :: "exn \<Rightarrow> 'a io" where
  "io_throw e = (\<lambda>db. (Inl e, db))"

definition io_bind :: "'a io \<Rightarrow> ('a \<Rightarrow> 'b io) \<Rightarrow> 'b io" where
  "io_bind m f = (\<lambda>db. case m db of (Inl e, db') \<Rightarrow> (Inl e, db') | (Inr x, db') \<Rightarrow> f x db')"



text \<open>\<open>report(stage, percent, message)\<close> calls the callback, which may throw.\<close>

definition report :: "env \<Rightarrow> progress_stage \<Rightarrow> unit io" where
  "report e st = (case onProgress e st of None \<Rightarrow> io_return () | Some x \<Rightarrow> io_throw x)"















section \<open>The three branches of importFile (importers/pipeline.ts)\<close>









section \<open>What a run parses and stores\<close>







text \<open>
  An environment in which nothing throws but the detection of an unreadable file and
  \<open>JSON.parse\<close>: detection goes by the file name, the transformer returns one sleep
  session and one workout, and every file hashes to \<open>h1\<close>.
\<close>

definition sample_workout :: WorkoutSession where
  "sample_workout =
     \<lparr> id_rec = ''w-1'', userId = ''u1'', sourceId = ''src-2'', date = ''2024-03-01'',
       w_startedAt = ''2024-03-01T18:00:00.000Z'', w_endedAt = None, w_durationSeconds = 3600,
       workoutType = hiit, workoutSubtype = None, calories = Some 500,
       w_avgHeartRate = None, w_maxHeartRate = None, distance = None, distanceUnit = None,
       w_dataQuality = defaultQualityFlags, w_vendorData = None \<rparr>"




section \<open>Sample import of a pre-parsed Apple Health file\<close>





section \<open>Totality of the statistics on empty input\<close>

text \<open>
  C10. On the empty list \<open>median\<close>, \<open>medianAbsoluteDeviation\<close> and \<open>percentile\<close>
  return 0, and \<open>calculateBaseline\<close> returns the all-zero baseline with sample size 0
  and excluded count 0: every numeric field is a number (never \<open>NaN\<close> or
  \<open>undefined\<close>), whatever the metric name, the outlier switch and the threshold are.
\<close>

theorem statistics_total_on_empty:
  "median [] = 0 \<and> medianAbsoluteDeviation [] = 0 \<and> percentile [] p = Some 0 \<and>
   calculateBaseline [] metric excludeOutliers madThreshold =
     \<lparr> bl_metric = metric, bl_median = 0, bl_mad = 0, bl_mean = Some 0, bl_stdDev = Some 0,
       bl_low = 0, bl_high = 0, bl_p25 = Some 0, bl_p75 = Some 0,
       bl_sampleSize = 0, bl_excludedCount = 0 \<rparr>"
  by (simp add: median_def medianAbsoluteDeviation_def percentile_def calculateBaseline_def)

section \<open>Robust z-score, median and mean under an injected outlier\<close>

lemma sort_replicate: "sort (replicate n (c::real)) = replicate n c"
  by (simp add: sorted_replicate sort_key_id_if_sorted)

lemma median_replicate: "0 < n \<Longrightarrow> median (replicate n c) = c"
proof -
  assume n: "0 < n"
  have a: "n div 2 < n" using n by simp
  have b: "n div 2 - 1 < n" using n by simp
  show ?thesis using n a b
    by (simp add: median_def sort_replicate Let_def)
qed

lemma mad_replicate: "medianAbsoluteDeviation (replicate n c) = 0"
proof (cases "n = 0")
  case True
  then show ?thesis by (simp add: medianAbsoluteDeviation_def)
next
  case False
  then have n: "0 < n" by simp
  have "map (\<lambda>v. \<bar>v - c\<bar>) (replicate n c) = replicate n 0" by simp
  then show ?thesis using n
    by (simp add: medianAbsoluteDeviation_def median_replicate Let_def)
qed

lemma sort_with_top:
  assumes "mset ys = add_mset (a::real) (mset xs)" and "\<forall>x\<in>set xs. x \<le> a"
  shows "sort ys = sort xs @ [a]"
proof -
  have "sorted (sort xs @ [a])" using assms(2) by (simp add: sorted_append)
  moreover have "mset (sort xs @ [a]) = mset ys" using assms(1) by simp
  ultimately show ?thesis by (metis properties_for_sort)
qed

lemma sort_with_bottom:
  assumes "mset ys = add_mset (a::real) (mset xs)" and "\<forall>x\<in>set xs. a \<le> x"
  shows "sort ys = a # sort xs"
proof -
  have "sorted (a # sort xs)" using assms(2) by simp
  moreover have "mset (a # sort xs) = mset ys" using assms(1) by simp
  ultimately show ?thesis by (metis properties_for_sort)
qed

lemma length_of_mset: "mset ys = add_mset a (mset xs) \<Longrightarrow> length ys = Suc (length xs)"
  by (metis size_mset size_add_mset)

lemma parity_cases:
  assumes "2 \<le> (n::nat)"
  obtains (ev) k where "n = 2 * k" and "1 \<le> k" | (od) k where "n = 2 * k + 1" and "1 \<le> k"
proof (cases "even n")
  case True
  then obtain k where k: "n = 2 * k" by (auto elim: evenE)
  with assms have "1 \<le> k" by simp
  with k show ?thesis using ev by blast
next
  case False
  then obtain k where k: "n = 2 * k + 1" by (auto elim: oddE)
  with assms have "1 \<le> k" by simp
  with k show ?thesis using od by blast
qed

lemma median_top:
  assumes ys: "mset ys = add_mset (a::real) (mset xs)" and zs: "mset zs = add_mset b (mset xs)"
    and ub: "\<forall>x\<in>set xs. x \<le> a \<and> x \<le> b" and n: "2 \<le> length xs"
  shows "median ys = median zs"
proof -
  have s1: "sort ys = sort xs @ [a]" using ys ub by (simp add: sort_with_top)
  have s2: "sort zs = sort xs @ [b]" using zs ub by (simp add: sort_with_top)
  have l1: "length ys = Suc (length xs)" by (rule length_of_mset[OF ys])
  have l2: "length zs = Suc (length xs)" by (rule length_of_mset[OF zs])
  from n show ?thesis
  proof (cases rule: parity_cases)
    case (ev k)
    then show ?thesis by (simp add: median_def Let_def s1 s2 l1 l2 nth_append)
  next
    case (od k)
    then show ?thesis by (simp add: median_def Let_def s1 s2 l1 l2 nth_append)
  qed
qed

lemma median_bottom:
  assumes ys: "mset ys = add_mset (a::real) (mset xs)" and zs: "mset zs = add_mset b (mset xs)"
    and lb: "\<forall>x\<in>set xs. a \<le> x \<and> b \<le> x" and n: "2 \<le> length xs"
  shows "median ys = median zs"
proof -
  have s1: "sort ys = a # sort xs" using ys lb by (simp add: sort_with_bottom)
  have s2: "sort zs = b # sort xs" using zs lb by (simp add: sort_with_bottom)
  have l1: "length ys = Suc (length xs)" by (rule length_of_mset[OF ys])
  have l2: "length zs = Suc (length xs)" by (rule length_of_mset[OF zs])
  from n show ?thesis
  proof (cases rule: parity_cases)
    case (ev k)
    then show ?thesis by (simp add: median_def Let_def s1 s2 l1 l2 nth_Cons')
  next
    case (od k)
    then show ?thesis by (simp add: median_def Let_def s1 s2 l1 l2 nth_Cons')
  qed
qed

lemma foldl_plus_sum: "foldl (+) (s::real) xs = s + sum_list xs"
  by (induction xs arbitrary: s) auto

lemma mean_injected:
  assumes "mset ys = add_mset (a::real) (mset xs)"
  shows "sample_mean ys = Some ((foldl (+) 0 xs + a) / real (length xs + 1))"
proof -
  have l: "length ys = Suc (length xs)" by (rule length_of_mset[OF assms(1)])
  have "sum_list ys = sum_list xs + a"
    by (metis assms sum_mset_sum_list sum_mset.add_mset add.commute)
  then show ?thesis using l by (simp add: sample_mean_def foldl_plus_sum)
qed

text \<open>
  The median of a two-element sample is the average of both elements, so with a single
  original value the injected outlier's magnitude does reach the median: the outliers
  100 and 1000 have the same rank in \<open>[1, 100]\<close> and \<open>[1, 1000]\<close>, and the medians
  differ.
\<close>

theorem median_small_sample_counterexample:
  "median [1, 100] = 101 / 2 \<and> median [1, 1000] = 1001 / 2 \<and>
   median [1, 100] \<noteq> median [1, 1000]"
  by (simp add: median_def)

text \<open>
  C5 (amended). \<open>robustZScore value median mad\<close> is
  \<open>(value - median) / (mad / 0.6745)\<close> whenever \<open>mad\<close> is not 0 and is 0 when
  \<open>mad = 0\<close>; a constant sample has MAD 0, hence robust z-score 0 for every value.
  For a sample \<open>xs\<close> of at least two values, injecting (anywhere) one outlier that lies
  above every value of the sample, or below every value, gives a median that does not
  depend on the outlier's magnitude: two such outliers \<open>a\<close> and \<open>b\<close> give the same
  median. The mean of the sample with \<open>a\<close> injected is \<open>(sum xs + a) / (n + 1)\<close>: it
  moves linearly with the outlier.
\<close>

theorem robust_statistics:
  "(mad \<noteq> 0 \<longrightarrow> robustZScore v med mad = (v - med) / (mad / 0.6745)) \<and>
   robustZScore v med 0 = 0 \<and>
   medianAbsoluteDeviation (replicate n c) = 0 \<and>
   robustZScore v (median (replicate n c)) (medianAbsoluteDeviation (replicate n c)) = 0 \<and>
   (2 \<le> length xs \<and> mset ys = add_mset a (mset xs) \<and> mset zs = add_mset b (mset xs) \<and>
    ((\<forall>x\<in>set xs. x \<le> a \<and> x \<le> b) \<or> (\<forall>x\<in>set xs. a \<le> x \<and> b \<le> x))
      \<longrightarrow> median ys = median zs) \<and>
   (mset ys = add_mset a (mset xs)
      \<longrightarrow> sample_mean ys = Some ((foldl (+) 0 xs + a) / real (length xs + 1)))"
proof -
  have z: "mad \<noteq> 0 \<longrightarrow> robustZScore v med mad = (v - med) / (mad / 0.6745)"
    by (simp add: robustZScore_def)
  have z0: "\<And>m. robustZScore v m 0 = 0"
    by (simp add: robustZScore_def)
  have m: "2 \<le> length xs \<and> mset ys = add_mset a (mset xs) \<and> mset zs = add_mset b (mset xs) \<and>
    ((\<forall>x\<in>set xs. x \<le> a \<and> x \<le> b) \<or> (\<forall>x\<in>set xs. a \<le> x \<and> b \<le> x))
      \<longrightarrow> median ys = median zs"
    using median_top [of ys a xs zs b] median_bottom [of ys a xs zs b] by blast
  have mn: "mset ys = add_mset a (mset xs)
      \<longrightarrow> sample_mean ys = Some ((foldl (+) 0 xs + a) / real (length xs + 1))"
    using mean_injected [of ys a xs] by blast
  show ?thesis
    using z z0 m mn by (simp only: mad_replicate simp_thms)
qed

theorem robust_statistics_witness:
  "robustZScore 10 4 2 = (10 - 4) / (2 / 0.6745) \<and>
   median [1, 100, 2, 3] = median [1000, 1, 2, 3] \<and>
   sample_mean [1, 100, 2, 3] = Some (106 / 4)"
  using robust_statistics [where mad = 2 and v = 10 and med = 4 and xs = "[1, 2, 3]"
      and ys = "[1, 100, 2, 3]" and a = 100 and zs = "[1000, 1, 2, 3]" and b = 1000]
  by simp

section \<open>Merging two sessions of one date\<close>

lemma merge_simps:
  "deepSeconds (mergeSessions e i) = or_num (deepSeconds (merge_base e i)) (deepSeconds (merge_supplement e i))"
  "remSeconds (mergeSessions e i) = or_num (remSeconds (merge_base e i)) (remSeconds (merge_supplement e i))"
  "lightSeconds (mergeSessions e i) = or_num (lightSeconds (merge_base e i)) (lightSeconds (merge_supplement e i))"
  "awakeSeconds (mergeSessions e i) = or_num (awakeSeconds (merge_base e i)) (awakeSeconds (merge_supplement e i))"
  "minHeartRate (mergeSessions e i) = or_opt (minHeartRate (merge_base e i)) (minHeartRate (merge_supplement e i))"
  "avgHeartRate (mergeSessions e i) = or_opt (avgHeartRate (merge_base e i)) (avgHeartRate (merge_supplement e i))"
  "avgHrv (mergeSessions e i) = or_opt (avgHrv (merge_base e i)) (avgHrv (merge_supplement e i))"
  "avgRespiratoryRate (mergeSessions e i) = or_opt (avgRespiratoryRate (merge_base e i)) (avgRespiratoryRate (merge_supplement e i))"
  "avgBedTempC (mergeSessions e i) = nullish (avgBedTempC (merge_base e i)) (avgBedTempC (merge_supplement e i))"
  "avgRoomTempC (mergeSessions e i) = nullish (avgRoomTempC (merge_base e i)) (avgRoomTempC (merge_supplement e i))"
  "efficiency (mergeSessions e i) =
     (if usable_efficiency (efficiency (merge_base e i)) then efficiency (merge_base e i)
      else if usable_efficiency (efficiency (merge_supplement e i)) then efficiency (merge_supplement e i)
      else efficiency (merge_base e i))"
  "vendorData (mergeSessions e i) =
     Some ((spread (vendorData (merge_supplement e i)) ++ spread (vendorData (merge_base e i)))
             (''mergedSources'' \<mapsto> VList (truthy_values [vendor_source (merge_base e i), vendor_source (merge_supplement e i)])))"
  by (simp_all add: mergeSessions_def Let_def)

lemma merge_frame:
  "id_rec (mergeSessions e i) = id_rec (merge_base e i)"
  "userId (mergeSessions e i) = userId (merge_base e i)"
  "sourceId (mergeSessions e i) = sourceId (merge_base e i)"
  "date (mergeSessions e i) = date (merge_base e i)"
  "startedAt (mergeSessions e i) = startedAt (merge_base e i)"
  "endedAt (mergeSessions e i) = endedAt (merge_base e i)"
  "durationSeconds (mergeSessions e i) = durationSeconds (merge_base e i)"
  "timeInBedSeconds (mergeSessions e i) = timeInBedSeconds (merge_base e i)"
  "sleepOnsetLatency (mergeSessions e i) = sleepOnsetLatency (merge_base e i)"
  "wakeAfterSleepOnset (mergeSessions e i) = wakeAfterSleepOnset (merge_base e i)"
  "maxHeartRate (mergeSessions e i) = maxHeartRate (merge_base e i)"
  "dataQuality (mergeSessions e i) = dataQuality (merge_base e i)"
  by (simp_all add: mergeSessions_def Let_def)

lemma positive_or_opt: "positive a \<Longrightarrow> positive (or_opt a b)"
  by (auto simp: positive_def or_opt_def split: option.splits)

lemma completeness_merge_base:
  "getSessionCompleteness (merge_base e i) \<le> getSessionCompleteness (mergeSessions e i)"
proof -
  let ?b = "merge_base e i" and ?m = "mergeSessions e i"
  have 1: "(if deepSeconds ?b > 0 then 5 else 0::nat) \<le> (if deepSeconds ?m > 0 then 5 else 0)"
    by (simp add: merge_simps or_num_def)
  have 2: "(if remSeconds ?b > 0 then 5 else 0::nat) \<le> (if remSeconds ?m > 0 then 5 else 0)"
    by (simp add: merge_simps or_num_def)
  have 3: "(if lightSeconds ?b > 0 then 5 else 0::nat) \<le> (if lightSeconds ?m > 0 then 5 else 0)"
    by (simp add: merge_simps or_num_def)
  have 4: "(if awakeSeconds ?b > 0 then 2 else 0::nat) \<le> (if awakeSeconds ?m > 0 then 2 else 0)"
    by (simp add: merge_simps or_num_def)
  have 5: "(if positive (minHeartRate ?b) then 5 else 0::nat) \<le> (if positive (minHeartRate ?m) then 5 else 0)"
    by (simp add: merge_simps positive_or_opt)
  have 6: "(if positive (avgHrv ?b) then 5 else 0::nat) \<le> (if positive (avgHrv ?m) then 5 else 0)"
    by (simp add: merge_simps positive_or_opt)
  have 7: "(if (case efficiency ?b of None \<Rightarrow> False | Some e \<Rightarrow> e \<noteq> 0 \<and> e > 0 \<and> e \<le> 100) then 3 else 0::nat)
        \<le> (if (case efficiency ?m of None \<Rightarrow> False | Some e \<Rightarrow> e \<noteq> 0 \<and> e > 0 \<and> e \<le> 100) then 3 else 0)"
    by (auto simp add: merge_simps usable_efficiency_def split: option.splits)
  have 8: "(if positive (avgRespiratoryRate ?b) then 3 else 0::nat) \<le> (if positive (avgRespiratoryRate ?m) then 3 else 0)"
    by (simp add: merge_simps positive_or_opt)
  have 9: "(if avgBedTempC ?b \<noteq> None then 2 else 0::nat) \<le> (if avgBedTempC ?m \<noteq> None then 2 else 0)"
    by (auto simp add: merge_simps nullish_def split: option.splits)
  have 0: "durationSeconds ?m = durationSeconds ?b" by (simp add: merge_frame)
  show ?thesis
    unfolding getSessionCompleteness_def 0
    by (intro add_mono order_refl 1 2 3 4 5 6 7 8 9)
qed

lemma completeness_merge:
  "getSessionCompleteness e \<le> getSessionCompleteness (mergeSessions e i)"
  "getSessionCompleteness i \<le> getSessionCompleteness (mergeSessions e i)"
  using completeness_merge_base [of e i] by (auto simp: merge_base_def split: if_splits)

lemma sample_scores:
  "getSessionCompleteness sample_rich = 30" "getSessionCompleteness sample_sparse = 20"
  by (simp_all add: getSessionCompleteness_def sample_rich_def sample_sparse_def positive_def)

lemma sample_base:
  "merge_base sample_rich sample_sparse = sample_rich"
  "merge_supplement sample_rich sample_sparse = sample_sparse"
  "merge_base sample_sparse sample_rich = sample_rich"
  "merge_supplement sample_sparse sample_rich = sample_sparse"
  by (simp_all add: merge_base_def merge_supplement_def sample_scores)

text \<open>
  A value that is present in the base is overwritten in two cases. The richer session
  \<open>sample_rich\<close> is the base; its efficiency 150 is replaced by the supplement's 90,
  and its respiratory rate, the number 0, is replaced by the supplement's missing one:
  a field that was not null in the base is \<open>undefined\<close> after the merge.
\<close>

theorem mergeSessions_overwrite_counterexample:
  "merge_base sample_rich sample_sparse = sample_rich \<and>
   efficiency sample_rich = Some 150 \<and>
   efficiency (mergeSessions sample_rich sample_sparse) = Some 90 \<and>
   avgRespiratoryRate sample_rich = Some 0 \<and>
   avgRespiratoryRate (mergeSessions sample_rich sample_sparse) = None"
  by (simp add: merge_simps sample_base usable_efficiency_def or_opt_def)
     (simp add: sample_rich_def sample_sparse_def)

text \<open>
  C2 (amended). \<open>mergeSessions\<close> takes the session with the higher completeness score as
  the base (the first argument on ties) and the other one as the supplement. A stage
  duration of the base (deep, REM, light, awake) is kept when it is not 0 and taken from
  the supplement when it is 0; the minimum heart rate, the average heart rate, the HRV
  and the respiratory rate of the base are kept when defined and not 0 and taken from the
  supplement otherwise; bed and room temperature are kept when defined and taken from the
  supplement otherwise; the base's efficiency is kept when it is non-zero and at most
  100, otherwise the supplement's efficiency replaces it when that one is non-zero and at
  most 100, and the base's stays when neither is. Every other field is the base's and is
  never filled from the supplement: id, user, source, date, start, end, duration, time
  in bed, sleep onset latency, wake after sleep onset, the maximum heart rate and the
  quality flags. The merged vendor data holds the supplement's entries under the base's,
  and \<open>mergedSources\<close> lists the truthy \<open>source\<close> values of base and supplement,
  in this order (both of them when both are set). The merge never lowers the
  completeness score of either session.
\<close>

theorem mergeSessions_fills_missing:
  fixes existing incoming :: SleepSession
  defines "base \<equiv> merge_base existing incoming"
    and "supp \<equiv> merge_supplement existing incoming"
    and "m \<equiv> mergeSessions existing incoming"
  shows
  "(getSessionCompleteness incoming \<le> getSessionCompleteness existing
      \<longrightarrow> base = existing \<and> supp = incoming) \<and>
   (getSessionCompleteness existing < getSessionCompleteness incoming
      \<longrightarrow> base = incoming \<and> supp = existing) \<and>
   (\<forall>f\<in>{deepSeconds, remSeconds, lightSeconds, awakeSeconds}.
      (f base \<noteq> 0 \<longrightarrow> f m = f base) \<and> (f base = 0 \<longrightarrow> f m = f supp)) \<and>
   (\<forall>f\<in>{minHeartRate, avgHeartRate, avgHrv, avgRespiratoryRate}.
      (\<forall>v. f base = Some v \<and> v \<noteq> 0 \<longrightarrow> f m = Some v) \<and>
      (f base = None \<or> f base = Some 0 \<longrightarrow> f m = f supp)) \<and>
   (\<forall>f\<in>{avgBedTempC, avgRoomTempC}.
      (\<forall>v. f base = Some v \<longrightarrow> f m = Some v) \<and> (f base = None \<longrightarrow> f m = f supp)) \<and>
   (usable_efficiency (efficiency base) \<longrightarrow> efficiency m = efficiency base) \<and>
   (\<not> usable_efficiency (efficiency base) \<and> usable_efficiency (efficiency supp)
      \<longrightarrow> efficiency m = efficiency supp) \<and>
   (\<not> usable_efficiency (efficiency base) \<and> \<not> usable_efficiency (efficiency supp)
      \<longrightarrow> efficiency m = efficiency base) \<and>
   (\<forall>f\<in>{id_rec, userId, sourceId, date, startedAt, endedAt}. f m = f base) \<and>
   (\<forall>f\<in>{durationSeconds, sleepOnsetLatency, wakeAfterSleepOnset, maxHeartRate}. f m = f base) \<and>
   timeInBedSeconds m = timeInBedSeconds base \<and> dataQuality m = dataQuality base \<and>
   (\<exists>vd. vendorData m = Some vd \<and>
      vd ''mergedSources'' = Some (VList (truthy_values [vendor_source base, vendor_source supp])) \<and>
      (\<forall>k. k \<noteq> ''mergedSources'' \<longrightarrow>
         vd k = (case spread (vendorData base) k of
                   Some v \<Rightarrow> Some v | None \<Rightarrow> spread (vendorData supp) k))) \<and>
   (\<forall>a b. vendor_source base = Some a \<and> truthy a \<and> vendor_source supp = Some b \<and> truthy b
      \<longrightarrow> truthy_values [vendor_source base, vendor_source supp] = [a, b]) \<and>
   getSessionCompleteness existing \<le> getSessionCompleteness m \<and>
   getSessionCompleteness incoming \<le> getSessionCompleteness m"
proof -
  have s1: "getSessionCompleteness incoming \<le> getSessionCompleteness existing
      \<longrightarrow> base = existing \<and> supp = incoming"
    by (simp add: base_def supp_def merge_base_def merge_supplement_def)
  have s2: "getSessionCompleteness existing < getSessionCompleteness incoming
      \<longrightarrow> base = incoming \<and> supp = existing"
    by (simp add: base_def supp_def merge_base_def merge_supplement_def)
  have nums: "\<forall>f\<in>{deepSeconds, remSeconds, lightSeconds, awakeSeconds}.
      (f base \<noteq> 0 \<longrightarrow> f m = f base) \<and> (f base = 0 \<longrightarrow> f m = f supp)"
    by (simp add: base_def supp_def m_def merge_simps or_num_def)
  have opts: "\<forall>f\<in>{minHeartRate, avgHeartRate, avgHrv, avgRespiratoryRate}.
      (\<forall>v. f base = Some v \<and> v \<noteq> 0 \<longrightarrow> f m = Some v) \<and>
      (f base = None \<or> f base = Some 0 \<longrightarrow> f m = f supp)"
    by (auto simp add: base_def supp_def m_def merge_simps or_opt_def)
  have temps: "\<forall>f\<in>{avgBedTempC, avgRoomTempC}.
      (\<forall>v. f base = Some v \<longrightarrow> f m = Some v) \<and> (f base = None \<longrightarrow> f m = f supp)"
    by (auto simp add: base_def supp_def m_def merge_simps nullish_def)
  have e1: "usable_efficiency (efficiency base) \<longrightarrow> efficiency m = efficiency base"
    by (simp add: base_def supp_def m_def merge_simps)
  have e2: "\<not> usable_efficiency (efficiency base) \<and> usable_efficiency (efficiency supp)
      \<longrightarrow> efficiency m = efficiency supp"
    by (simp add: base_def supp_def m_def merge_simps)
  have e3: "\<not> usable_efficiency (efficiency base) \<and> \<not> usable_efficiency (efficiency supp)
      \<longrightarrow> efficiency m = efficiency base"
    by (simp add: base_def supp_def m_def merge_simps)
  have f1: "\<forall>f\<in>{id_rec, userId, sourceId, date, startedAt, endedAt}. f m = f base"
    by (simp add: base_def m_def merge_frame)
  have f2: "\<forall>f\<in>{durationSeconds, sleepOnsetLatency, wakeAfterSleepOnset, maxHeartRate}.
      f m = f base"
    by (simp add: base_def m_def merge_frame)
  have f3: "timeInBedSeconds m = timeInBedSeconds base"
    by (simp add: base_def m_def merge_frame)
  have f4: "dataQuality m = dataQuality base"
    by (simp add: base_def m_def merge_frame)
  have vd: "\<exists>vd. vendorData m = Some vd \<and>
      vd ''mergedSources'' = Some (VList (truthy_values [vendor_source base, vendor_source supp])) \<and>
      (\<forall>k. k \<noteq> ''mergedSources'' \<longrightarrow>
         vd k = (case spread (vendorData base) k of
                   Some v \<Rightarrow> Some v | None \<Rightarrow> spread (vendorData supp) k))"
    unfolding base_def supp_def m_def by (simp add: merge_simps map_add_def)
  have both: "\<forall>a b. vendor_source base = Some a \<and> truthy a \<and> vendor_source supp = Some b \<and> truthy b
      \<longrightarrow> truthy_values [vendor_source base, vendor_source supp] = [a, b]"
    by (simp add: truthy_values_def)
  have c1: "getSessionCompleteness existing \<le> getSessionCompleteness m"
    by (simp add: m_def completeness_merge)
  have c2: "getSessionCompleteness incoming \<le> getSessionCompleteness m"
    by (simp add: m_def completeness_merge)
  show ?thesis
    by (intro conjI) (fact s1 s2 nums opts temps e1 e2 e3 f1 f2 f3 f4 vd both c1 c2)+
qed

theorem mergeSessions_fills_missing_witness:
  "deepSeconds (mergeSessions sample_rich sample_sparse) = 5400 \<and>
   awakeSeconds (mergeSessions sample_rich sample_sparse) = 1200 \<and>
   minHeartRate (mergeSessions sample_rich sample_sparse) = Some 48 \<and>
   avgHrv (mergeSessions sample_sparse sample_rich) = Some 55 \<and>
   avgRoomTempC (mergeSessions sample_rich sample_sparse) = Some 19 \<and>
   efficiency (mergeSessions sample_rich sample_sparse) = Some 90 \<and>
   id_rec (mergeSessions sample_sparse sample_rich) = ''rich-1'' \<and>
   30 \<le> getSessionCompleteness (mergeSessions sample_rich sample_sparse)"
  using mergeSessions_fills_missing [of sample_rich sample_sparse]
    mergeSessions_fills_missing [of sample_sparse sample_rich]
  by (simp add: sample_base sample_scores usable_efficiency_def)
     (simp add: sample_rich_def sample_sparse_def)

section \<open>Deduplication per incoming date\<close>

lemma most_complete_snoc:
  "most_complete (xs @ [s]) =
     (case most_complete xs of
        None \<Rightarrow> Some s
      | Some b \<Rightarrow> if getSessionCompleteness s > getSessionCompleteness b then Some s else Some b)"
proof (induction xs)
  case Nil
  then show ?case by simp
next
  case (Cons x xs)
  then show ?case by (auto split: option.splits)
qed

lemma existingByDate_snoc:
  "existingByDate (store @ [s]) uid = existing_step uid (existingByDate store uid) s"
  by (simp add: existingByDate_def)

lemma existingByDate_lookup:
  "map_of (existingByDate store uid) d = most_complete (stored_for store uid d)"
proof (induction store rule: rev_induct)
  case Nil
  then show ?case by (simp add: existingByDate_def stored_for_def)
next
  case (snoc s store)
  show ?case
  proof (cases "userId s = uid \<and> date s = d")
    case True
    then have f: "stored_for (store @ [s]) uid d = stored_for store uid d @ [s]"
      by (simp add: stored_for_def)
    show ?thesis using True snoc.IH
      by (simp add: existingByDate_snoc existing_step_def f most_complete_snoc update_conv'
               split: option.splits)
  next
    case False
    then have f: "stored_for (store @ [s]) uid d = stored_for store uid d"
      by (auto simp add: stored_for_def)
    show ?thesis using False snoc.IH
      by (auto simp add: existingByDate_snoc existing_step_def f update_conv'
               split: option.splits)
  qed
qed

lemma dedup_step_reconcile:
  "dedup_step (existingByDate store uid) acc entry =
     acc\<lparr> sessions := sessions acc @ emitted (reconcile store uid entry),
          mergedCount := mergedCount acc + (if is_update (reconcile store uid entry) then 1 else 0),
          skippedCount := skippedCount acc + (if reconcile store uid entry = Skip then 1 else 0) \<rparr>"
  by (simp add: dedup_step_def reconcile_def existingByDate_lookup split: option.splits)

lemma dedup_fold:
  "foldl (dedup_step (existingByDate store uid)) acc entries =
     acc\<lparr> sessions := sessions acc @ concat (map (\<lambda>e. emitted (reconcile store uid e)) entries),
          mergedCount := mergedCount acc + length (filter (\<lambda>e. is_update (reconcile store uid e)) entries),
          skippedCount := skippedCount acc + length (filter (\<lambda>e. reconcile store uid e = Skip) entries) \<rparr>"
proof (induction entries arbitrary: acc)
  case Nil
  then show ?case by simp
next
  case (Cons e entries)
  have "foldl (dedup_step (existingByDate store uid)) acc (e # entries) =
        foldl (dedup_step (existingByDate store uid))
          (dedup_step (existingByDate store uid) acc e) entries"
    by simp
  also have "\<dots> = (dedup_step (existingByDate store uid) acc e)
      \<lparr> sessions := sessions (dedup_step (existingByDate store uid) acc e)
                      @ concat (map (\<lambda>e. emitted (reconcile store uid e)) entries),
        mergedCount := mergedCount (dedup_step (existingByDate store uid) acc e)
                      + length (filter (\<lambda>e. is_update (reconcile store uid e)) entries),
        skippedCount := skippedCount (dedup_step (existingByDate store uid) acc e)
                      + length (filter (\<lambda>e. reconcile store uid e = Skip) entries) \<rparr>"
    by (rule Cons.IH)
  also have "\<dots> = acc
      \<lparr> sessions := sessions acc @ concat (map (\<lambda>e. emitted (reconcile store uid e)) (e # entries)),
        mergedCount := mergedCount acc
                      + length (filter (\<lambda>e. is_update (reconcile store uid e)) (e # entries)),
        skippedCount := skippedCount acc
                      + length (filter (\<lambda>e. reconcile store uid e = Skip) (e # entries)) \<rparr>"
    unfolding dedup_step_reconcile by simp
  finally show ?case .
qed

lemma most_complete_None: "most_complete xs = None \<longleftrightarrow> xs = []"
  by (cases xs) (auto split: option.splits)

lemma most_complete_mem: "most_complete xs = Some b \<Longrightarrow> b \<in> set xs"
  by (induction xs arbitrary: b) (auto split: option.splits if_splits)

lemma most_complete_max:
  "most_complete xs = Some b \<Longrightarrow> x \<in> set xs \<Longrightarrow> getSessionCompleteness x \<le> getSessionCompleteness b"
proof (induction xs arbitrary: b)
  case Nil
  then show ?case by simp
next
  case (Cons y ys)
  then show ?case
    by (fastforce split: option.splits if_splits simp: most_complete_None)
qed

lemma reconcile_new:
  "\<forall>e\<in>set store. \<not> (userId e = uid \<and> date e = d) \<Longrightarrow> reconcile store uid (d, s) = AddNew s"
proof -
  assume "\<forall>e\<in>set store. \<not> (userId e = uid \<and> date e = d)"
  then have "stored_for store uid d = []" by (auto simp: stored_for_def filter_empty_conv)
  then show ?thesis by (simp add: reconcile_def)
qed

lemma reconcile_skip:
  assumes "e \<in> set store" "userId e = uid" "date e = d"
    "getSessionCompleteness s \<le> getSessionCompleteness e"
  shows "reconcile store uid (d, s) = Skip"
proof -
  have m: "e \<in> set (stored_for store uid d)" using assms by (simp add: stored_for_def)
  then obtain b where b: "most_complete (stored_for store uid d) = Some b"
    by (cases "most_complete (stored_for store uid d)") (auto simp: most_complete_None)
  have "getSessionCompleteness e \<le> getSessionCompleteness b"
    using most_complete_max [OF b m] .
  then show ?thesis using b assms(4) by (simp add: reconcile_def)
qed

lemma reconcile_update:
  assumes "e0 \<in> set store" "userId e0 = uid" "date e0 = d"
    and "\<forall>e\<in>set store. userId e = uid \<and> date e = d
           \<longrightarrow> getSessionCompleteness e < getSessionCompleteness s"
  shows "\<exists>e\<in>set store. userId e = uid \<and> date e = d \<and>
           most_complete (stored_for store uid d) = Some e \<and>
           reconcile store uid (d, s) = Update ((mergeSessions e s)\<lparr>id_rec := id_rec e\<rparr>)"
proof -
  have m: "e0 \<in> set (stored_for store uid d)" using assms by (simp add: stored_for_def)
  then obtain b where b: "most_complete (stored_for store uid d) = Some b"
    by (cases "most_complete (stored_for store uid d)") (auto simp: most_complete_None)
  have bm: "b \<in> set (stored_for store uid d)" using most_complete_mem [OF b] .
  then have bs: "b \<in> set store" "userId b = uid" "date b = d" by (auto simp: stored_for_def)
  then have "getSessionCompleteness b < getSessionCompleteness s" using assms(4) by blast
  then have "reconcile store uid (d, s) = Update ((mergeSessions b s)\<lparr>id_rec := id_rec b\<rparr>)"
    using b by (simp add: reconcile_def)
  then show ?thesis using bs b by blast
qed

lemma incomingByDate_snoc:
  "incomingByDate (xs @ [s]) = incoming_step (incomingByDate xs) s"
  by (simp add: incomingByDate_def)

lemma incoming_dates_snoc:
  "incoming_dates (xs @ [s]) =
     (if date s \<in> set (incoming_dates xs) then incoming_dates xs else incoming_dates xs @ [date s])"
  by (simp add: incoming_dates_def)

lemma incomingByDate_keys: "map fst (incomingByDate incoming) = incoming_dates incoming"
proof (induction incoming rule: rev_induct)
  case Nil
  then show ?case by (simp add: incomingByDate_def incoming_dates_def)
next
  case (snoc s xs)
  have "map fst (incomingByDate (xs @ [s])) =
        (if date s \<in> set (map fst (incomingByDate xs)) then map fst (incomingByDate xs)
         else map fst (incomingByDate xs) @ [date s])"
    by (simp add: incomingByDate_snoc incoming_step_def update_keys map_of_eq_None_iff
          split: option.splits)
  then show ?case by (simp add: snoc.IH incoming_dates_snoc)
qed

lemma merge_all_snoc:
  "merge_all (xs @ [s]) =
     (case merge_all xs of None \<Rightarrow> Some s | Some m \<Rightarrow> Some (mergeSessions m s))"
  by (cases xs) simp_all

lemma incomingByDate_lookup:
  "map_of (incomingByDate incoming) d = merge_all (filter (\<lambda>s. date s = d) incoming)"
proof (induction incoming rule: rev_induct)
  case Nil
  then show ?case by (simp add: incomingByDate_def)
next
  case (snoc s xs)
  show ?case
  proof (cases "date s = d")
    case True
    then show ?thesis using snoc.IH
      by (simp add: incomingByDate_snoc incoming_step_def merge_all_snoc update_conv'
            split: option.splits)
  next
    case False
    then show ?thesis using snoc.IH
      by (auto simp add: incomingByDate_snoc incoming_step_def update_conv' split: option.splits)
  qed
qed

lemma merge_date:
  "date a = d \<Longrightarrow> date b = d \<Longrightarrow> date (mergeSessions a b) = d"
  by (simp add: merge_frame merge_base_def)

lemma foldl_merge_date:
  "date a = d \<Longrightarrow> \<forall>s\<in>set ss. date s = d \<Longrightarrow> date (foldl mergeSessions a ss) = d"
  by (induction ss arbitrary: a) (simp_all add: merge_date)

lemma merge_all_date:
  "merge_all (filter (\<lambda>s. date s = d) incoming) = Some m \<Longrightarrow> date m = d"
  by (cases "filter (\<lambda>s. date s = d) incoming")
     (auto simp add: filter_eq_Cons_iff intro!: foldl_merge_date)

lemma incoming_dates_set: "set (incoming_dates incoming) = date ` set incoming"
  by (simp add: incoming_dates_def)

lemma incoming_dates_distinct: "distinct (incoming_dates incoming)"
  by (simp add: incoming_dates_def)

lemma collapsed_entry:
  assumes "(d, s) \<in> set (incomingByDate incoming)"
  shows "date s = d \<and> merge_all (filter (\<lambda>x. date x = d) incoming) = Some s"
proof -
  have "distinct (map fst (incomingByDate incoming))"
    by (simp add: incomingByDate_keys incoming_dates_distinct)
  with assms have "map_of (incomingByDate incoming) d = Some s" by simp
  then have m: "merge_all (filter (\<lambda>x. date x = d) incoming) = Some s"
    by (simp add: incomingByDate_lookup)
  from merge_all_date [OF m] m show ?thesis by simp
qed

lemma completeness_id:
  "getSessionCompleteness (s\<lparr>id_rec := i\<rparr>) = getSessionCompleteness s"
  by (simp add: getSessionCompleteness_def)

lemma update_record:
  assumes lt: "getSessionCompleteness e < getSessionCompleteness s"
    and u: "u = (mergeSessions e s)\<lparr>id_rec := id_rec e\<rparr>"
  shows "id_rec u = id_rec e \<and> userId u = userId s \<and> date u = date s \<and>
     sourceId u = sourceId s \<and> durationSeconds u = durationSeconds s \<and>
     (\<forall>f\<in>{deepSeconds, remSeconds, lightSeconds, awakeSeconds}.
        f u = (if f s \<noteq> 0 then f s else f e)) \<and>
     (\<forall>f\<in>{minHeartRate, avgHeartRate, avgHrv, avgRespiratoryRate}.
        f u = (if f s = None \<or> f s = Some 0 then f e else f s)) \<and>
     (\<forall>f\<in>{avgBedTempC, avgRoomTempC}. f u = (if f s = None then f e else f s)) \<and>
     getSessionCompleteness s \<le> getSessionCompleteness u"
proof -
  from lt have b: "merge_base e s = s" "merge_supplement e s = e"
    by (simp_all add: merge_base_def merge_supplement_def)
  have 1: "id_rec u = id_rec e" "userId u = userId s" "date u = date s"
     "sourceId u = sourceId s" "durationSeconds u = durationSeconds s"
    by (simp_all add: u merge_frame b)
  have n: "deepSeconds u = (if deepSeconds s \<noteq> 0 then deepSeconds s else deepSeconds e)"
    "remSeconds u = (if remSeconds s \<noteq> 0 then remSeconds s else remSeconds e)"
    "lightSeconds u = (if lightSeconds s \<noteq> 0 then lightSeconds s else lightSeconds e)"
    "awakeSeconds u = (if awakeSeconds s \<noteq> 0 then awakeSeconds s else awakeSeconds e)"
    by (simp_all add: u merge_simps b or_num_def)
  have 2: "\<forall>f\<in>{deepSeconds, remSeconds, lightSeconds, awakeSeconds}.
        f u = (if f s \<noteq> 0 then f s else f e)"
    using n by blast
  have or_opt_if: "\<And>a c. or_opt a c = (if a = None \<or> a = Some 0 then c else a)"
    by (simp add: or_opt_def split: option.splits)
  have o: "minHeartRate u = (if minHeartRate s = None \<or> minHeartRate s = Some 0 then minHeartRate e else minHeartRate s)"
    "avgHeartRate u = (if avgHeartRate s = None \<or> avgHeartRate s = Some 0 then avgHeartRate e else avgHeartRate s)"
    "avgHrv u = (if avgHrv s = None \<or> avgHrv s = Some 0 then avgHrv e else avgHrv s)"
    "avgRespiratoryRate u = (if avgRespiratoryRate s = None \<or> avgRespiratoryRate s = Some 0 then avgRespiratoryRate e else avgRespiratoryRate s)"
  proof -
    have m: "minHeartRate u = or_opt (minHeartRate s) (minHeartRate e)"
      "avgHeartRate u = or_opt (avgHeartRate s) (avgHeartRate e)"
      "avgHrv u = or_opt (avgHrv s) (avgHrv e)"
      "avgRespiratoryRate u = or_opt (avgRespiratoryRate s) (avgRespiratoryRate e)"
      by (simp_all add: u merge_simps b)
    show "minHeartRate u = (if minHeartRate s = None \<or> minHeartRate s = Some 0 then minHeartRate e else minHeartRate s)"
      unfolding m(1) by (rule or_opt_if)
    show "avgHeartRate u = (if avgHeartRate s = None \<or> avgHeartRate s = Some 0 then avgHeartRate e else avgHeartRate s)"
      unfolding m(2) by (rule or_opt_if)
    show "avgHrv u = (if avgHrv s = None \<or> avgHrv s = Some 0 then avgHrv e else avgHrv s)"
      unfolding m(3) by (rule or_opt_if)
    show "avgRespiratoryRate u = (if avgRespiratoryRate s = None \<or> avgRespiratoryRate s = Some 0 then avgRespiratoryRate e else avgRespiratoryRate s)"
      unfolding m(4) by (rule or_opt_if)
  qed
  have 3: "\<forall>f\<in>{minHeartRate, avgHeartRate, avgHrv, avgRespiratoryRate}.
        f u = (if f s = None \<or> f s = Some 0 then f e else f s)"
    using o by blast
  have nullish_if: "\<And>a c. nullish a c = (if a = None then c else a)"
    by (simp add: nullish_def split: option.splits)
  have t: "avgBedTempC u = (if avgBedTempC s = None then avgBedTempC e else avgBedTempC s)"
    "avgRoomTempC u = (if avgRoomTempC s = None then avgRoomTempC e else avgRoomTempC s)"
    by (simp_all add: u merge_simps b nullish_if)
  have 4: "\<forall>f\<in>{avgBedTempC, avgRoomTempC}. f u = (if f s = None then f e else f s)"
    using t by blast
  have 5: "getSessionCompleteness s \<le> getSessionCompleteness u"
    by (simp add: u completeness_id completeness_merge)
  show ?thesis by (intro conjI) (fact 1 2 3 4 5)+
qed

text \<open>
  C1. \<open>deduplicateSessions\<close> first collapses the incoming sessions of one date into one
  (\<open>incomingByDate\<close>): the collapsed list has one entry per incoming date, in the order
  in which the dates first appear, and the entry of a date is the merge, from left to
  right with \<open>mergeSessions\<close>, of the incoming sessions of that date, and has that date.
  Then each incoming date is treated on its own, in order: the returned sessions are
  what \<open>reconcile\<close> emits per date, \<open>mergedCount\<close> counts the dates it updates and
  \<open>skippedCount\<close> the dates it skips. For a date \<open>d\<close> with collapsed incoming session
  \<open>s\<close>: when no stored session of the user has date \<open>d\<close>, \<open>s\<close> itself is returned as
  a new record; when some stored session of that user and date has a completeness score
  at least that of \<open>s\<close>, nothing is returned for the date (the stored session stays as
  it is); when stored sessions exist and all score strictly less, the returned record is
  the merge of the most complete stored session \<open>e\<close> with \<open>s\<close>, carrying the id of
  \<open>e\<close>. That record has the user, date, source and duration of \<open>s\<close>, each stage
  duration, heart rate, HRV, respiratory rate and temperature of \<open>s\<close> where \<open>s\<close> has
  one and of \<open>e\<close> otherwise, and a completeness score not below that of \<open>s\<close>.
\<close>

theorem deduplicateSessions_per_date:
  fixes store incoming :: "SleepSession list" and uid :: string
  defines "r \<equiv> deduplicateSessions store incoming uid"
    and "collapsed \<equiv> incomingByDate incoming"
  shows
  "map fst collapsed = incoming_dates incoming \<and>
   distinct (map fst collapsed) \<and>
   set (map fst collapsed) = date ` set incoming \<and>
   (\<forall>d. map_of collapsed d = merge_all (filter (\<lambda>x. date x = d) incoming)) \<and>
   (\<forall>(d, s)\<in>set collapsed.
      date s = d \<and> merge_all (filter (\<lambda>x. date x = d) incoming) = Some s) \<and>
   sessions r = concat (map (\<lambda>e. emitted (reconcile store uid e)) collapsed) \<and>
   mergedCount r = length (filter (\<lambda>e. is_update (reconcile store uid e)) collapsed) \<and>
   skippedCount r = length (filter (\<lambda>e. reconcile store uid e = Skip) collapsed) \<and>
   (\<forall>d s.
      ((\<forall>e\<in>set store. \<not> (userId e = uid \<and> date e = d))
         \<longrightarrow> reconcile store uid (d, s) = AddNew s) \<and>
      ((\<exists>e\<in>set store. userId e = uid \<and> date e = d \<and>
                        getSessionCompleteness s \<le> getSessionCompleteness e)
         \<longrightarrow> reconcile store uid (d, s) = Skip) \<and>
      ((\<exists>e\<in>set store. userId e = uid \<and> date e = d) \<and>
       (\<forall>e\<in>set store. userId e = uid \<and> date e = d
                        \<longrightarrow> getSessionCompleteness e < getSessionCompleteness s)
         \<longrightarrow> (\<exists>e\<in>set store. userId e = uid \<and> date e = d \<and>
                most_complete (stored_for store uid d) = Some e \<and>
                reconcile store uid (d, s) = Update ((mergeSessions e s)\<lparr>id_rec := id_rec e\<rparr>)))) \<and>
   (\<forall>e s u. getSessionCompleteness e < getSessionCompleteness s \<and>
        u = (mergeSessions e s)\<lparr>id_rec := id_rec e\<rparr>
      \<longrightarrow> id_rec u = id_rec e \<and> userId u = userId s \<and> date u = date s \<and>
          sourceId u = sourceId s \<and> durationSeconds u = durationSeconds s \<and>
          (\<forall>f\<in>{deepSeconds, remSeconds, lightSeconds, awakeSeconds}.
             f u = (if f s \<noteq> 0 then f s else f e)) \<and>
          (\<forall>f\<in>{minHeartRate, avgHeartRate, avgHrv, avgRespiratoryRate}.
             f u = (if f s = None \<or> f s = Some 0 then f e else f s)) \<and>
          (\<forall>f\<in>{avgBedTempC, avgRoomTempC}. f u = (if f s = None then f e else f s)) \<and>
          getSessionCompleteness s \<le> getSessionCompleteness u)"
proof -
  have k1: "map fst collapsed = incoming_dates incoming"
    unfolding collapsed_def by (rule incomingByDate_keys)
  have k2: "distinct (map fst collapsed)"
    by (simp add: k1 incoming_dates_distinct)
  have k3: "set (map fst collapsed) = date ` set incoming"
    by (simp only: k1 incoming_dates_set)
  have k4: "\<forall>d. map_of collapsed d = merge_all (filter (\<lambda>x. date x = d) incoming)"
    unfolding collapsed_def by (simp add: incomingByDate_lookup)
  have k5: "\<forall>(d, s)\<in>set collapsed.
      date s = d \<and> merge_all (filter (\<lambda>x. date x = d) incoming) = Some s"
    unfolding collapsed_def
  proof (intro ballI)
    fix x assume "x \<in> set (incomingByDate incoming)"
    then have "(fst x, snd x) \<in> set (incomingByDate incoming)" by simp
    from collapsed_entry [OF this]
    show "case x of (d, s) \<Rightarrow>
            date s = d \<and> merge_all (filter (\<lambda>x. date x = d) incoming) = Some s"
      by (simp add: case_prod_beta)
  qed
  have fold: "r = \<lparr> sessions = concat (map (\<lambda>e. emitted (reconcile store uid e)) collapsed),
      mergedCount = length (filter (\<lambda>e. is_update (reconcile store uid e)) collapsed),
      skippedCount = length (filter (\<lambda>e. reconcile store uid e = Skip) collapsed) \<rparr>"
    unfolding r_def collapsed_def deduplicateSessions_def dedup_fold by simp
  have a: "sessions r = concat (map (\<lambda>e. emitted (reconcile store uid e)) collapsed)"
    by (simp add: fold)
  have b: "mergedCount r = length (filter (\<lambda>e. is_update (reconcile store uid e)) collapsed)"
    by (simp add: fold)
  have c: "skippedCount r = length (filter (\<lambda>e. reconcile store uid e = Skip) collapsed)"
    by (simp add: fold)
  have d: "\<forall>d s.
      ((\<forall>e\<in>set store. \<not> (userId e = uid \<and> date e = d))
         \<longrightarrow> reconcile store uid (d, s) = AddNew s) \<and>
      ((\<exists>e\<in>set store. userId e = uid \<and> date e = d \<and>
                        getSessionCompleteness s \<le> getSessionCompleteness e)
         \<longrightarrow> reconcile store uid (d, s) = Skip) \<and>
      ((\<exists>e\<in>set store. userId e = uid \<and> date e = d) \<and>
       (\<forall>e\<in>set store. userId e = uid \<and> date e = d
                        \<longrightarrow> getSessionCompleteness e < getSessionCompleteness s)
         \<longrightarrow> (\<exists>e\<in>set store. userId e = uid \<and> date e = d \<and>
                most_complete (stored_for store uid d) = Some e \<and>
                reconcile store uid (d, s) = Update ((mergeSessions e s)\<lparr>id_rec := id_rec e\<rparr>)))"
  proof (intro allI conjI impI)
    fix d s
    assume "\<forall>e\<in>set store. \<not> (userId e = uid \<and> date e = d)"
    then show "reconcile store uid (d, s) = AddNew s" by (rule reconcile_new)
  next
    fix d s
    assume "\<exists>e\<in>set store. userId e = uid \<and> date e = d \<and>
                        getSessionCompleteness s \<le> getSessionCompleteness e"
    then show "reconcile store uid (d, s) = Skip" using reconcile_skip by blast
  next
    fix d s
    assume "(\<exists>e\<in>set store. userId e = uid \<and> date e = d) \<and>
       (\<forall>e\<in>set store. userId e = uid \<and> date e = d
                        \<longrightarrow> getSessionCompleteness e < getSessionCompleteness s)"
    then show "\<exists>e\<in>set store. userId e = uid \<and> date e = d \<and>
                most_complete (stored_for store uid d) = Some e \<and>
                reconcile store uid (d, s) = Update ((mergeSessions e s)\<lparr>id_rec := id_rec e\<rparr>)"
      using reconcile_update [of _ store uid d s] by blast
  qed
  have u: "\<forall>e s u. getSessionCompleteness e < getSessionCompleteness s \<and>
        u = (mergeSessions e s)\<lparr>id_rec := id_rec e\<rparr>
      \<longrightarrow> id_rec u = id_rec e \<and> userId u = userId s \<and> date u = date s \<and>
          sourceId u = sourceId s \<and> durationSeconds u = durationSeconds s \<and>
          (\<forall>f\<in>{deepSeconds, remSeconds, lightSeconds, awakeSeconds}.
             f u = (if f s \<noteq> 0 then f s else f e)) \<and>
          (\<forall>f\<in>{minHeartRate, avgHeartRate, avgHrv, avgRespiratoryRate}.
             f u = (if f s = None \<or> f s = Some 0 then f e else f s)) \<and>
          (\<forall>f\<in>{avgBedTempC, avgRoomTempC}. f u = (if f s = None then f e else f s)) \<and>
          getSessionCompleteness s \<le> getSessionCompleteness u"
  proof (intro allI impI)
    fix e s u
    assume h: "getSessionCompleteness e < getSessionCompleteness s \<and>
        u = (mergeSessions e s)\<lparr>id_rec := id_rec e\<rparr>"
    then have lt: "getSessionCompleteness e < getSessionCompleteness s"
      and ueq: "u = (mergeSessions e s)\<lparr>id_rec := id_rec e\<rparr>" by simp_all
    show "id_rec u = id_rec e \<and> userId u = userId s \<and> date u = date s \<and>
          sourceId u = sourceId s \<and> durationSeconds u = durationSeconds s \<and>
          (\<forall>f\<in>{deepSeconds, remSeconds, lightSeconds, awakeSeconds}.
             f u = (if f s \<noteq> 0 then f s else f e)) \<and>
          (\<forall>f\<in>{minHeartRate, avgHeartRate, avgHrv, avgRespiratoryRate}.
             f u = (if f s = None \<or> f s = Some 0 then f e else f s)) \<and>
          (\<forall>f\<in>{avgBedTempC, avgRoomTempC}. f u = (if f s = None then f e else f s)) \<and>
          getSessionCompleteness s \<le> getSessionCompleteness u"
      by (rule update_record [OF lt ueq])
  qed
  show ?thesis by (intro conjI) (fact k1 k2 k3 k4 k5 a b c d u)+
qed

lemma sample_store_best:
  "most_complete (stored_for sample_store ''u1'' ''2024-03-01'') = Some sample_sparse"
  by (simp add: stored_for_def sample_store_def)
     (simp add: sample_rich_def sample_sparse_def)

lemma sample_incoming_scores:
  "getSessionCompleteness (sample_sparse\<lparr>id_rec := ''in-2'', date := ''2024-03-02''\<rparr>) = 20"
  "getSessionCompleteness (sample_rich\<lparr>id_rec := ''in-4'', date := ''2024-03-02''\<rparr>) = 30"
  by (simp_all add: getSessionCompleteness_def sample_rich_def sample_sparse_def positive_def)

lemma sample_collapsed:
  "incomingByDate sample_incoming =
     [(''2024-03-01'', sample_rich\<lparr>id_rec := ''in-1''\<rparr>),
      (''2024-03-02'',
         mergeSessions (sample_sparse\<lparr>id_rec := ''in-2'', date := ''2024-03-02''\<rparr>)
                       (sample_rich\<lparr>id_rec := ''in-4'', date := ''2024-03-02''\<rparr>)),
      (''2024-03-03'', sample_sparse\<lparr>id_rec := ''in-3'', date := ''2024-03-03''\<rparr>)]"
proof -
  have d: "date sample_rich = ''2024-03-01''" "date sample_sparse = ''2024-03-01''"
    by (simp_all add: sample_rich_def sample_sparse_def)
  show ?thesis
    by (simp add: incomingByDate_def sample_incoming_def incoming_step_def d)
qed

lemma sample_dates:
  "incoming_dates sample_incoming = [''2024-03-01'', ''2024-03-02'', ''2024-03-03'']"
proof -
  have d: "date sample_rich = ''2024-03-01''" "date sample_sparse = ''2024-03-01''"
    by (simp_all add: sample_rich_def sample_sparse_def)
  show ?thesis by (simp add: incoming_dates_def sample_incoming_def d)
qed

theorem deduplicateSessions_per_date_witness:
  "map fst (incomingByDate sample_incoming) = [''2024-03-01'', ''2024-03-02'', ''2024-03-03''] \<and>
   map_of (incomingByDate sample_incoming) ''2024-03-02''
     = Some (mergeSessions (sample_sparse\<lparr>id_rec := ''in-2'', date := ''2024-03-02''\<rparr>)
                           (sample_rich\<lparr>id_rec := ''in-4'', date := ''2024-03-02''\<rparr>)) \<and>
   map id_rec (sessions (deduplicateSessions sample_store sample_incoming ''u1''))
     = [''sparse-1'', ''in-4''] \<and>
   mergedCount (deduplicateSessions sample_store sample_incoming ''u1'') = 1 \<and>
   skippedCount (deduplicateSessions sample_store sample_incoming ''u1'') = 1"
proof -
  let ?s1 = "sample_rich\<lparr>id_rec := ''in-1''\<rparr>"
  let ?s2 = "sample_sparse\<lparr>id_rec := ''in-2'', date := ''2024-03-02''\<rparr>"
  let ?s3 = "sample_sparse\<lparr>id_rec := ''in-3'', date := ''2024-03-03''\<rparr>"
  let ?s4 = "sample_rich\<lparr>id_rec := ''in-4'', date := ''2024-03-02''\<rparr>"
  let ?full = "sample_rich\<lparr>id_rec := ''full-3'', date := ''2024-03-03''\<rparr>"
  note t = deduplicateSessions_per_date
    [where store = sample_store and uid = "''u1''" and incoming = sample_incoming]
  note k1 = t [THEN conjunct1]
  note k4 = t [THEN conjunct2, THEN conjunct2, THEN conjunct2, THEN conjunct1]
  note r5 = t [THEN conjunct2, THEN conjunct2, THEN conjunct2, THEN conjunct2, THEN conjunct2]
  note a = r5 [THEN conjunct1]
  note b = r5 [THEN conjunct2, THEN conjunct1]
  note c = r5 [THEN conjunct2, THEN conjunct2, THEN conjunct1]
  note d = r5 [THEN conjunct2, THEN conjunct2, THEN conjunct2, THEN conjunct1]
  have users: "userId sample_sparse = ''u1''" "userId sample_rich = ''u1''"
    "date sample_sparse = ''2024-03-01''" "date sample_rich = ''2024-03-01''"
    by (simp_all add: sample_rich_def sample_sparse_def)
  have scores: "getSessionCompleteness ?s1 = 30" "getSessionCompleteness ?s3 = 20"
    "getSessionCompleteness ?full = 30"
    by (simp_all add: getSessionCompleteness_def sample_rich_def sample_sparse_def positive_def)
  have keys: "map fst (incomingByDate sample_incoming)
      = [''2024-03-01'', ''2024-03-02'', ''2024-03-03'']"
    using k1 by (simp add: sample_dates)
  have same: "filter (\<lambda>x. date x = ''2024-03-02'') sample_incoming = [?s2, ?s4]"
    by (simp add: sample_incoming_def users)
  have entry: "map_of (incomingByDate sample_incoming) ''2024-03-02''
      = Some (mergeSessions ?s2 ?s4)"
  proof -
    from k4 have "map_of (incomingByDate sample_incoming) ''2024-03-02''
      = merge_all (filter (\<lambda>x. date x = ''2024-03-02'') sample_incoming)"
      by (rule spec)
    then show ?thesis by (simp add: same)
  qed
  have new: "reconcile sample_store ''u1'' (''2024-03-02'', mergeSessions ?s2 ?s4)
      = AddNew (mergeSessions ?s2 ?s4)"
  proof -
    have "\<forall>e\<in>set sample_store. \<not> (userId e = ''u1'' \<and> date e = ''2024-03-02'')"
      by (simp add: sample_store_def users)
    with d show ?thesis by blast
  qed
  have skip: "reconcile sample_store ''u1'' (''2024-03-03'', ?s3) = Skip"
  proof -
    have "\<exists>e\<in>set sample_store. userId e = ''u1'' \<and> date e = ''2024-03-03'' \<and>
            getSessionCompleteness ?s3 \<le> getSessionCompleteness e"
      by (simp add: sample_store_def users scores)
    with d show ?thesis by blast
  qed
  have upd: "reconcile sample_store ''u1'' (''2024-03-01'', ?s1)
      = Update ((mergeSessions sample_sparse ?s1)\<lparr>id_rec := ''sparse-1''\<rparr>)"
  proof -
    have 1: "\<exists>e\<in>set sample_store. userId e = ''u1'' \<and> date e = ''2024-03-01''"
      by (simp add: sample_store_def users)
    have 2: "\<forall>e\<in>set sample_store. userId e = ''u1'' \<and> date e = ''2024-03-01''
               \<longrightarrow> getSessionCompleteness e < getSessionCompleteness ?s1"
      by (simp add: sample_store_def users scores sample_scores)
    from d 1 2 obtain e where
      e: "most_complete (stored_for sample_store ''u1'' ''2024-03-01'') = Some e"
      and u: "reconcile sample_store ''u1'' (''2024-03-01'', ?s1)
         = Update ((mergeSessions e ?s1)\<lparr>id_rec := id_rec e\<rparr>)"
      by blast
    from e have "e = sample_sparse" by (simp add: sample_store_best)
    moreover have "id_rec sample_sparse = ''sparse-1''" by (simp add: sample_sparse_def)
    ultimately show ?thesis using u by simp
  qed
  have id4: "id_rec (mergeSessions ?s2 ?s4) = ''in-4''"
    by (simp add: merge_frame merge_base_def sample_incoming_scores)
  have counts: "map id_rec (sessions (deduplicateSessions sample_store sample_incoming ''u1''))
     = [''sparse-1'', ''in-4''] \<and>
   mergedCount (deduplicateSessions sample_store sample_incoming ''u1'') = 1 \<and>
   skippedCount (deduplicateSessions sample_store sample_incoming ''u1'') = 1"
    using a b c by (simp add: sample_collapsed new skip upd id4)
  from keys entry counts show ?thesis by blast
qed

section \<open>Quality classification of a sleep session\<close>

lemma check_step_eq:
  "check_step acc c =
     (fst acc @ (case checkHardLimits (c_value c) (c_field c) (c_limitKey c) of
                   None \<Rightarrow> [] | Some v \<Rightarrow> [v]),
      snd acc @ (if c_value c = None \<and> c_required c then [c_field c] else []))"
  by (cases "c_value c") (auto simp: check_step_def checkHardLimits_def split: option.splits)

lemma check_loop:
  "foldl check_step acc cs =
     (fst acc @ List.map_filter (\<lambda>c. checkHardLimits (c_value c) (c_field c) (c_limitKey c)) cs,
      snd acc @ map c_field (filter (\<lambda>c. c_value c = None \<and> c_required c) cs))"
proof (induction cs arbitrary: acc)
  case Nil
  then show ?case by (simp add: map_filter_simps)
next
  case (Cons c cs)
  have "foldl check_step acc (c # cs) = foldl check_step (check_step acc c) cs"
    by simp
  also have "\<dots> =
     (fst (check_step acc c)
        @ List.map_filter (\<lambda>c. checkHardLimits (c_value c) (c_field c) (c_limitKey c)) cs,
      snd (check_step acc c)
        @ map c_field (filter (\<lambda>c. c_value c = None \<and> c_required c) cs))"
    by (rule Cons.IH)
  also have "\<dots> =
     (fst acc @ List.map_filter (\<lambda>c. checkHardLimits (c_value c) (c_field c) (c_limitKey c)) (c # cs),
      snd acc @ map c_field (filter (\<lambda>c. c_value c = None \<and> c_required c) (c # cs)))"
    unfolding check_step_eq by (simp add: map_filter_simps split: option.splits)
  finally show ?case .
qed

lemma checkHardLimits_outside:
  "checkHardLimits v f k = None \<longleftrightarrow> \<not> outside v k"
  by (auto simp: checkHardLimits_def outside_def Let_def split: option.splits)

lemma map_filter_empty:
  "List.map_filter f xs = [] \<longleftrightarrow> (\<forall>x\<in>set xs. f x = None)"
  by (induction xs) (auto simp: map_filter_simps split: option.splits)

lemma stage_violations_empty:
  "stage_violations s = [] \<longleftrightarrow>
     \<not> (deepSeconds s + remSeconds s + lightSeconds s > 0 \<and>
       (outside (Some (deepSeconds s / (deepSeconds s + remSeconds s + lightSeconds s) * 100)) L_deepPercent \<or>
        outside (Some (remSeconds s / (deepSeconds s + remSeconds s + lightSeconds s) * 100)) L_remPercent))"
  using checkHardLimits_outside [of "Some (deepSeconds s / (deepSeconds s + remSeconds s + lightSeconds s) * 100)" "''deepPercent''" L_deepPercent]
    checkHardLimits_outside [of "Some (remSeconds s / (deepSeconds s + remSeconds s + lightSeconds s) * 100)" "''remPercent''" L_remPercent]
  by (auto simp add: stage_violations_def Let_def split: option.splits)

lemma violations_iff:
  "r_hardLimitViolations (checkSleepSessionQuality s b t) \<noteq> [] \<longleftrightarrow> hard_violation s"
proof -
  have "fst (foldl check_step ([], []) (checks s)) = [] \<longleftrightarrow>
     \<not> (outside (minHeartRate s) L_minHeartRate \<or> outside (avgHeartRate s) L_heartRate \<or>
      outside (maxHeartRate s) L_maxHeartRate \<or> outside (avgHrv s) L_hrv \<or>
      outside (avgRespiratoryRate s) L_respiratoryRate \<or>
      outside (durationSeconds s) L_sleepDuration \<or>
      outside (avgBedTempC s) L_bodyTemp \<or> outside (avgRoomTempC s) L_roomTemp)"
    unfolding check_loop fst_conv append_Nil map_filter_empty
    by (simp add: checks_def checkHardLimits_outside)
  then show ?thesis
    unfolding hard_violation_def
    using stage_violations_empty [of s]
    by (simp add: checkSleepSessionQuality_def Let_def)
qed

lemma outlier_step_eq:
  "outlier_step bl t acc e = acc @ (if statistical_outlier (Some bl) t e then [fst e] else [])"
  by (auto simp add: outlier_step_def statistical_outlier_def split: option.splits prod.splits)

lemma outlier_loop:
  "foldl (outlier_step bl t) acc es = acc @ map fst (filter (statistical_outlier (Some bl) t) es)"
proof (induction es arbitrary: acc)
  case Nil
  then show ?case by simp
next
  case (Cons e es)
  have "foldl (outlier_step bl t) acc (e # es) = foldl (outlier_step bl t) (outlier_step bl t acc e) es"
    by simp
  also have "\<dots> = outlier_step bl t acc e @ map fst (filter (statistical_outlier (Some bl) t) es)"
    by (rule Cons.IH)
  also have "\<dots> = acc @ map fst (filter (statistical_outlier (Some bl) t) (e # es))"
    unfolding outlier_step_eq by simp
  finally show ?case .
qed

lemma outliers_eq:
  "r_outlierFields (checkSleepSessionQuality s b t) = outlier_fields s b t"
proof (cases b)
  case None
  then show ?thesis
    by (simp add: checkSleepSessionQuality_def Let_def outlier_fields_def statistical_outlier_def)
next
  case (Some bl)
  then show ?thesis
    by (simp add: checkSleepSessionQuality_def Let_def outlier_fields_def outlier_loop)
qed

lemma missing_eq:
  "r_missingFields (checkSleepSessionQuality s b t)
     = (if durationSeconds s = None then [''durationSeconds''] else [])"
  unfolding checkSleepSessionQuality_def Let_def check_loop by (simp add: checks_def)

lemma quality_cascade:
  fixes s b t
  defines "r \<equiv> checkSleepSessionQuality s b t"
  shows "overallQuality r =
           (if r_hardLimitViolations r \<noteq> [] then bad
            else if length (r_outlierFields r) \<ge> 2 then warning
            else if length (r_outlierFields r) = 1 \<or> r_missingFields r \<noteq> [] then warning
            else good)"
    and "suggestedAction r =
           (if r_hardLimitViolations r \<noteq> [] then exclude_from_baseline
            else if length (r_outlierFields r) \<ge> 2 then flag_for_review
            else include_session)"
  unfolding r_def by (simp_all add: checkSleepSessionQuality_def Let_def)

lemma hrv_400: "avgHrv s = Some 400 \<Longrightarrow> hard_violation s"
  by (simp add: hard_violation_def outside_def)

text \<open>
  C4. For every session, optional baseline and threshold, the report of
  \<open>checkSleepSessionQuality\<close> lists a hard-limit violation exactly when some checked
  value lies outside its range of \<open>HARD_LIMITS\<close> (\<open>hard_violation\<close>, which does not
  look at the baseline), lists as outlier fields exactly the metrics whose robust z-score
  against the baseline exceeds the threshold in absolute value, and lists a missing field
  exactly when \<open>durationSeconds\<close> is missing. The quality is \<open>bad\<close> with action
  \<open>exclude_from_baseline\<close> exactly when a hard violation exists; with none, two or
  more outlier fields give \<open>warning\<close> with \<open>flag_for_review\<close>; failing that, exactly
  one outlier field or the missing required field gives \<open>warning\<close> with \<open>include\<close>;
  otherwise \<open>good\<close> with \<open>include\<close>. A session with \<open>avgHrv = 400\<close> is
  \<open>bad\<close> with \<open>exclude_from_baseline\<close> with or without a baseline.
\<close>

theorem checkSleepSessionQuality_policy:
  fixes s :: SleepSession and b :: "baseline option" and t :: real
  defines "r \<equiv> checkSleepSessionQuality s b t"
  shows
  "(r_hardLimitViolations r \<noteq> [] \<longleftrightarrow> hard_violation s) \<and>
   r_outlierFields r = outlier_fields s b t \<and>
   (r_missingFields r \<noteq> [] \<longleftrightarrow> durationSeconds s = None) \<and>
   ((overallQuality r = bad \<and> suggestedAction r = exclude_from_baseline) \<longleftrightarrow> hard_violation s) \<and>
   (overallQuality r = bad \<longleftrightarrow> hard_violation s) \<and>
   (suggestedAction r = exclude_from_baseline \<longleftrightarrow> hard_violation s) \<and>
   (\<not> hard_violation s \<and> 2 \<le> length (outlier_fields s b t)
      \<longrightarrow> overallQuality r = warning \<and> suggestedAction r = flag_for_review) \<and>
   (\<not> hard_violation s \<and> length (outlier_fields s b t) < 2 \<and>
    (length (outlier_fields s b t) = 1 \<or> durationSeconds s = None)
      \<longrightarrow> overallQuality r = warning \<and> suggestedAction r = include_session) \<and>
   (\<not> hard_violation s \<and> outlier_fields s b t = [] \<and> durationSeconds s \<noteq> None
      \<longrightarrow> overallQuality r = good \<and> suggestedAction r = include_session) \<and>
   (avgHrv s = Some 400
      \<longrightarrow> overallQuality r = bad \<and> suggestedAction r = exclude_from_baseline)"
proof -
  have v: "r_hardLimitViolations r \<noteq> [] \<longleftrightarrow> hard_violation s"
    unfolding r_def by (rule violations_iff)
  have o: "r_outlierFields r = outlier_fields s b t"
    unfolding r_def by (rule outliers_eq)
  have m: "r_missingFields r \<noteq> [] \<longleftrightarrow> durationSeconds s = None"
    unfolding r_def by (simp add: missing_eq)
  have q: "overallQuality r =
           (if hard_violation s then bad
            else if length (outlier_fields s b t) \<ge> 2 then warning
            else if length (outlier_fields s b t) = 1 \<or> durationSeconds s = None then warning
            else good)"
    using quality_cascade(1) [of s b t] v o m unfolding r_def by simp
  have a: "suggestedAction r =
           (if hard_violation s then exclude_from_baseline
            else if length (outlier_fields s b t) \<ge> 2 then flag_for_review
            else include_session)"
    using quality_cascade(2) [of s b t] v o unfolding r_def by simp
  have c1: "(overallQuality r = bad \<and> suggestedAction r = exclude_from_baseline) \<longleftrightarrow> hard_violation s"
    by (simp add: q a)
  have c2: "overallQuality r = bad \<longleftrightarrow> hard_violation s"
    by (simp add: q)
  have c3: "suggestedAction r = exclude_from_baseline \<longleftrightarrow> hard_violation s"
    by (simp add: a)
  have c4: "\<not> hard_violation s \<and> 2 \<le> length (outlier_fields s b t)
      \<longrightarrow> overallQuality r = warning \<and> suggestedAction r = flag_for_review"
    by (simp add: q a)
  have c5: "\<not> hard_violation s \<and> length (outlier_fields s b t) < 2 \<and>
    (length (outlier_fields s b t) = 1 \<or> durationSeconds s = None)
      \<longrightarrow> overallQuality r = warning \<and> suggestedAction r = include_session"
    by (auto simp add: q a)
  have c6: "\<not> hard_violation s \<and> outlier_fields s b t = [] \<and> durationSeconds s \<noteq> None
      \<longrightarrow> overallQuality r = good \<and> suggestedAction r = include_session"
    by (auto simp add: q a)
  have c7: "avgHrv s = Some 400
      \<longrightarrow> overallQuality r = bad \<and> suggestedAction r = exclude_from_baseline"
    using hrv_400 [of s] by (auto simp add: q a)
  show ?thesis by (intro conjI) (fact v o m c1 c2 c3 c4 c5 c6 c7)+
qed

lemma sample_sparse_fields:
  "minHeartRate sample_sparse = Some 48" "avgHeartRate sample_sparse = None"
  "maxHeartRate sample_sparse = None" "avgHrv sample_sparse = None"
  "avgRespiratoryRate sample_sparse = None" "durationSeconds sample_sparse = Some 27000"
  "avgBedTempC sample_sparse = None" "avgRoomTempC sample_sparse = Some 21"
  "deepSeconds sample_sparse = 0" "remSeconds sample_sparse = 0" "lightSeconds sample_sparse = 0"
  by (simp_all add: sample_sparse_def)

lemma sample_no_violation:
  "\<not> hard_violation sample_sparse"
  "\<not> hard_violation (sample_sparse\<lparr>avgHrv := Some 120\<rparr>)"
  "\<not> hard_violation (sample_sparse\<lparr>durationSeconds := None\<rparr>)"
  by (simp_all add: hard_violation_def outside_def sample_sparse_fields)

lemma sample_outliers:
  "outlier_fields (sample_sparse\<lparr>avgHrv := Some 120\<rparr>) (Some sample_baseline) DEFAULT_MAD_THRESHOLD
     = [''avgHrv'', ''minHeartRate'']"
  "outlier_fields (sample_sparse\<lparr>avgHrv := Some 120\<rparr>) (Some [''avgHrv'' \<mapsto> (50, 5)])
     DEFAULT_MAD_THRESHOLD = [''avgHrv'']"
  "outlier_fields sample_sparse None DEFAULT_MAD_THRESHOLD = []"
  "outlier_fields (sample_sparse\<lparr>durationSeconds := None\<rparr>) None DEFAULT_MAD_THRESHOLD = []"
  by (simp_all add: outlier_fields_def metricsToCheck_def statistical_outlier_def
        sample_baseline_def robustZScore_def sample_sparse_fields DEFAULT_MAD_THRESHOLD_def)

theorem checkSleepSessionQuality_policy_witness:
  "overallQuality (checkSleepSessionQuality (sample_sparse\<lparr>avgHrv := Some 400\<rparr>) None
      DEFAULT_MAD_THRESHOLD) = bad \<and>
   suggestedAction (checkSleepSessionQuality (sample_sparse\<lparr>avgHrv := Some 400\<rparr>)
      (Some sample_baseline) DEFAULT_MAD_THRESHOLD) = exclude_from_baseline \<and>
   overallQuality (checkSleepSessionQuality (sample_sparse\<lparr>avgHrv := Some 120\<rparr>)
      (Some sample_baseline) DEFAULT_MAD_THRESHOLD) = warning \<and>
   suggestedAction (checkSleepSessionQuality (sample_sparse\<lparr>avgHrv := Some 120\<rparr>)
      (Some sample_baseline) DEFAULT_MAD_THRESHOLD) = flag_for_review \<and>
   suggestedAction (checkSleepSessionQuality (sample_sparse\<lparr>avgHrv := Some 120\<rparr>)
      (Some [''avgHrv'' \<mapsto> (50, 5)]) DEFAULT_MAD_THRESHOLD) = include_session \<and>
   overallQuality (checkSleepSessionQuality (sample_sparse\<lparr>durationSeconds := None\<rparr>) None
      DEFAULT_MAD_THRESHOLD) = warning \<and>
   overallQuality (checkSleepSessionQuality sample_sparse None DEFAULT_MAD_THRESHOLD) = good"
proof -
  let ?t = DEFAULT_MAD_THRESHOLD
  have h: "avgHrv (sample_sparse\<lparr>avgHrv := Some 400\<rparr>) = Some 400" by simp
  have 1: "overallQuality (checkSleepSessionQuality (sample_sparse\<lparr>avgHrv := Some 400\<rparr>) None ?t) = bad"
    using checkSleepSessionQuality_policy [of "sample_sparse\<lparr>avgHrv := Some 400\<rparr>" None ?t] h
    by blast
  have 2: "suggestedAction (checkSleepSessionQuality (sample_sparse\<lparr>avgHrv := Some 400\<rparr>)
      (Some sample_baseline) ?t) = exclude_from_baseline"
    using checkSleepSessionQuality_policy
      [of "sample_sparse\<lparr>avgHrv := Some 400\<rparr>" "Some sample_baseline" ?t] h
    by blast
  have two: "2 \<le> length (outlier_fields (sample_sparse\<lparr>avgHrv := Some 120\<rparr>)
      (Some sample_baseline) ?t)"
    by (simp add: sample_outliers)
  have 3: "overallQuality (checkSleepSessionQuality (sample_sparse\<lparr>avgHrv := Some 120\<rparr>)
      (Some sample_baseline) ?t) = warning \<and>
    suggestedAction (checkSleepSessionQuality (sample_sparse\<lparr>avgHrv := Some 120\<rparr>)
      (Some sample_baseline) ?t) = flag_for_review"
    using checkSleepSessionQuality_policy
      [of "sample_sparse\<lparr>avgHrv := Some 120\<rparr>" "Some sample_baseline" ?t]
      sample_no_violation(2) two
    by simp
  have one: "length (outlier_fields (sample_sparse\<lparr>avgHrv := Some 120\<rparr>)
      (Some [''avgHrv'' \<mapsto> (50, 5)]) ?t) < 2 \<and>
     length (outlier_fields (sample_sparse\<lparr>avgHrv := Some 120\<rparr>)
      (Some [''avgHrv'' \<mapsto> (50, 5)]) ?t) = 1"
    by (simp add: sample_outliers)
  have 4: "suggestedAction (checkSleepSessionQuality (sample_sparse\<lparr>avgHrv := Some 120\<rparr>)
      (Some [''avgHrv'' \<mapsto> (50, 5)]) ?t) = include_session"
    using checkSleepSessionQuality_policy
      [of "sample_sparse\<lparr>avgHrv := Some 120\<rparr>" "Some [''avgHrv'' \<mapsto> (50, 5)]" ?t]
      sample_no_violation(2) one
    by simp
  have none: "length (outlier_fields (sample_sparse\<lparr>durationSeconds := None\<rparr>) None ?t) < 2 \<and>
     durationSeconds (sample_sparse\<lparr>durationSeconds := None\<rparr>) = None"
    by (simp add: sample_outliers)
  have 5: "overallQuality (checkSleepSessionQuality (sample_sparse\<lparr>durationSeconds := None\<rparr>)
      None ?t) = warning"
    using checkSleepSessionQuality_policy
      [of "sample_sparse\<lparr>durationSeconds := None\<rparr>" None ?t]
      sample_no_violation(3) none
    by simp
  have ok: "outlier_fields sample_sparse None ?t = [] \<and> durationSeconds sample_sparse \<noteq> None"
    by (simp add: sample_outliers sample_sparse_fields)
  have 6: "overallQuality (checkSleepSessionQuality sample_sparse None ?t) = good"
    using checkSleepSessionQuality_policy [of sample_sparse None ?t]
      sample_no_violation(1) ok
    by simp
  from 1 2 3 4 5 6 show ?thesis by blast
qed

section \<open>The Eight Sleep parser at scenario B\<close>

lemma add_stage_unfold:
  "foldl add_stage t sts =
     \<lparr> awake = awake t + sum_list (map duration (filter (\<lambda>st. stage st = ''awake'') sts)),
       light = light t + sum_list (map duration (filter (\<lambda>st. stage st = ''light'') sts)),
       deep = deep t + sum_list (map duration (filter (\<lambda>st. stage st = ''deep'') sts)),
       rem = rem t + sum_list (map duration (filter (\<lambda>st. stage st = ''rem'') sts)),
       out = out t + sum_list (map duration (filter (\<lambda>st. stage st = ''out'') sts)) \<rparr>"
proof (induction sts arbitrary: t)
  case Nil
  then show ?case by simp
next
  case (Cons st sts)
  have "foldl add_stage t (st # sts) = foldl add_stage (add_stage t st) sts" by simp
  also have "\<dots> =
     \<lparr> awake = awake (add_stage t st) + sum_list (map duration (filter (\<lambda>st. stage st = ''awake'') sts)),
       light = light (add_stage t st) + sum_list (map duration (filter (\<lambda>st. stage st = ''light'') sts)),
       deep = deep (add_stage t st) + sum_list (map duration (filter (\<lambda>st. stage st = ''deep'') sts)),
       rem = rem (add_stage t st) + sum_list (map duration (filter (\<lambda>st. stage st = ''rem'') sts)),
       out = out (add_stage t st) + sum_list (map duration (filter (\<lambda>st. stage st = ''out'') sts)) \<rparr>"
    by (rule Cons.IH)
  also have "\<dots> =
     \<lparr> awake = awake t + sum_list (map duration (filter (\<lambda>st. stage st = ''awake'') (st # sts))),
       light = light t + sum_list (map duration (filter (\<lambda>st. stage st = ''light'') (st # sts))),
       deep = deep t + sum_list (map duration (filter (\<lambda>st. stage st = ''deep'') (st # sts))),
       rem = rem t + sum_list (map duration (filter (\<lambda>st. stage st = ''rem'') (st # sts))),
       out = out t + sum_list (map duration (filter (\<lambda>st. stage st = ''out'') (st # sts))) \<rparr>"
    by (simp add: add_stage_def)
  finally show ?case .
qed

lemma scenario_totals:
  "stage_totals scenario_stages
     = \<lparr> awake = 300, light = 10800, deep = 1800, rem = 900, out = 0 \<rparr>"
  by (simp add: stage_totals_def scenario_stages_def add_stage_def)

lemma totals_eq:
  "stage_totals sts =
     \<lparr> awake = stage_seconds ''awake'' sts, light = stage_seconds ''light'' sts,
       deep = stage_seconds ''deep'' sts, rem = stage_seconds ''rem'' sts,
       out = stage_seconds ''out'' sts \<rparr>"
  unfolding stage_totals_def add_stage_unfold stage_seconds_def by simp

lemma time_clip_int: "time_clip (real_of_int i) = Some j \<Longrightarrow> j = i"
  by (auto simp: time_clip_def split: if_splits)

lemma ms_facts:
  "time_clip 1709362800000 = Some 1709362800000"
  "time_clip 1709376600000 = Some 1709376600000"
  "getHours (-28800) 1709362800000 = 23"
  "time_clip 1709334000000 = Some 1709334000000"
  "time_clip 1709347800000 = Some 1709347800000"
  "getHours 0 1709334000000 = 23"
  by (simp_all add: time_clip_def getHours_def)

lemma iso_facts:
  "iso_date 1709362800000 = ''2024-03-02''"
  "iso_date 1709334000000 = ''2024-03-01''"
  "iso_date 1709376600000 = ''2024-03-02''"
  "iso_date 1709347800000 = ''2024-03-02''"
  by (simp_all add: iso_date_def civil_from_days_def year_string_def pad4_def pad2_def
        digit_char_def cong: let_weak_cong)

lemma iso_time_facts:
  "iso_time 1709362800000 = ''07:00:00.000Z''"
  "iso_time 1709376600000 = ''10:50:00.000Z''"
  "iso_time 1709334000000 = ''23:00:00.000Z''"
  "iso_time 1709347800000 = ''02:50:00.000Z''"
  by (simp_all add: iso_time_def pad2_def pad3_def digit_char_def cong: let_weak_cong)

lemma night_of_facts:
  "night_of (-28800) 1709362800 = ''2024-03-01''"
  "night_of 0 1709334000 = ''2024-03-01''"
  by (simp_all add: night_of_def iso_date_def civil_from_days_def year_string_def pad4_def pad2_def
        digit_char_def cong: let_weak_cong)

lemma scenario_length: "length scenario_stages = 4"
  by (simp add: scenario_stages_def)

lemma scenario_dates:
  "startedAt_date \<lparr> ts = 1709362800, stages = Some scenario_stages, timeseries = None \<rparr>
     = Some 1709362800000"
  "endedAt_date \<lparr> ts = 1709362800, stages = Some scenario_stages, timeseries = None \<rparr> 13800
     = Some 1709376600000"
  "session_date (-28800) \<lparr> ts = 1709362800, stages = Some scenario_stages, timeseries = None \<rparr>
     = Inr ''2024-03-02''"
  "startedAt_date \<lparr> ts = 1709334000, stages = Some scenario_stages, timeseries = None \<rparr>
     = Some 1709334000000"
  "endedAt_date \<lparr> ts = 1709334000, stages = Some scenario_stages, timeseries = None \<rparr> 13800
     = Some 1709347800000"
  "session_date 0 \<lparr> ts = 1709334000, stages = Some scenario_stages, timeseries = None \<rparr>
     = Inr ''2024-03-01''"
  by (simp_all add: startedAt_date_def endedAt_date_def session_date_def ms_facts iso_day_def
        iso_facts)

lemma scenario_eval:
  "transformRawSession (-28800) nid
      \<lparr> ts = 1709362800, stages = Some scenario_stages, timeseries = None \<rparr> src uid =
   Inr (Some (session_record nid uid src
      \<lparr> ts = 1709362800, stages = Some scenario_stages, timeseries = None \<rparr> scenario_stages
      \<lparr> awake = 300, light = 10800, deep = 1800, rem = 900, out = 0 \<rparr>
      ''2024-03-02'' ''2024-03-02T07:00:00.000Z'' ''2024-03-02T10:50:00.000Z''))"
  by (simp add: transformRawSession_def Let_def scenario_length scenario_totals scenario_dates
        toISOString_def iso_facts iso_time_facts)

lemma scenario_eval_utc:
  "transformRawSession 0 nid
      \<lparr> ts = 1709334000, stages = Some scenario_stages, timeseries = None \<rparr> src uid =
   Inr (Some (session_record nid uid src
      \<lparr> ts = 1709334000, stages = Some scenario_stages, timeseries = None \<rparr> scenario_stages
      \<lparr> awake = 300, light = 10800, deep = 1800, rem = 900, out = 0 \<rparr>
      ''2024-03-01'' ''2024-03-01T23:00:00.000Z'' ''2024-03-02T02:50:00.000Z''))"
  by (simp add: transformRawSession_def Let_def scenario_length scenario_totals scenario_dates
        toISOString_def iso_facts iso_time_facts)

lemma session_record_fields:
  "id_rec (session_record nid uid src raw sts t d st en) = nid"
  "userId (session_record nid uid src raw sts t d st en) = uid"
  "sourceId (session_record nid uid src raw sts t d st en) = src"
  "date (session_record nid uid src raw sts t d st en) = d"
  "startedAt (session_record nid uid src raw sts t d st en) = st"
  "endedAt (session_record nid uid src raw sts t d st en) = en"
  "durationSeconds (session_record nid uid src raw sts t d st en) = Some (light t + deep t + rem t)"
  "timeInBedSeconds (session_record nid uid src raw sts t d st en) = light t + deep t + rem t + awake t"
  "deepSeconds (session_record nid uid src raw sts t d st en) = deep t"
  "remSeconds (session_record nid uid src raw sts t d st en) = rem t"
  "lightSeconds (session_record nid uid src raw sts t d st en) = light t"
  "awakeSeconds (session_record nid uid src raw sts t d st en) = awake t"
  "efficiency (session_record nid uid src raw sts t d st en) =
     (if light t + deep t + rem t + awake t > 0
      then Some ((light t + deep t + rem t) / (light t + deep t + rem t + awake t) * 100) else None)"
  by (simp_all add: session_record_def Let_def)

lemma transformRawSession_short:
  assumes "stages raw = Some sts"
    and "stage_seconds ''light'' sts + stage_seconds ''deep'' sts + stage_seconds ''rem'' sts < 10800"
  shows "transformRawSession tz nid raw src uid = Inr None"
  using assms unfolding transformRawSession_def totals_eq by (simp add: Let_def)

lemma transformRawSession_Some:
  assumes r: "transformRawSession tz nid raw src uid = Inr (Some s)"
    and sts: "stages raw = Some sts"
  shows "\<exists>d st en. session_date tz raw = Inr d \<and>
           s = session_record nid uid src raw sts (stage_totals sts) d st en \<and>
           \<not> light (stage_totals sts) + deep (stage_totals sts) + rem (stage_totals sts) < 10800"
  using r sts unfolding transformRawSession_def
  by (auto simp add: Let_def split: if_splits sum.splits)

lemma session_date_value:
  assumes "session_date tz raw = Inr d"
  shows "d = iso_date (if getHours tz (ts raw * 1000) < 6
                       then ts raw * 1000 - 86400000 else ts raw * 1000)"
proof -
  from assms obtain ms where ms: "startedAt_date raw = Some ms"
    by (cases "startedAt_date raw") (simp_all add: session_date_def)
  then have msv: "ms = ts raw * 1000"
    unfolding startedAt_date_def by (rule time_clip_int)
  show ?thesis
  proof (cases "getHours tz ms < 6")
    case True
    with assms ms obtain p where p: "previous_day ms = Some p" and dp: "d = iso_date p"
      by (auto simp: session_date_def iso_day_def split: option.splits)
    from p have "p = ms - 86400000" unfolding previous_day_def by (rule time_clip_int)
    then show ?thesis using True dp msv by simp
  next
    case False
    with assms ms have "d = iso_date ms" by (simp add: session_date_def iso_day_def)
    then show ?thesis using False msv by simp
  qed
qed

lemma transformRawSession_fields:
  assumes r: "transformRawSession tz nid raw src uid = Inr (Some s)"
    and sts: "stages raw = Some sts"
  shows "deepSeconds s = stage_seconds ''deep'' sts \<and>
     lightSeconds s = stage_seconds ''light'' sts \<and>
     remSeconds s = stage_seconds ''rem'' sts \<and>
     awakeSeconds s = stage_seconds ''awake'' sts \<and>
     durationSeconds s = Some (deepSeconds s + lightSeconds s + remSeconds s) \<and>
     timeInBedSeconds s = deepSeconds s + lightSeconds s + remSeconds s + awakeSeconds s \<and>
     10800 \<le> deepSeconds s + lightSeconds s + remSeconds s \<and>
     efficiency s =
       (if timeInBedSeconds s > 0
        then Some ((deepSeconds s + lightSeconds s + remSeconds s) / timeInBedSeconds s * 100)
        else None) \<and>
     date s = iso_date (if getHours tz (ts raw * 1000) < 6
                        then ts raw * 1000 - 86400000 else ts raw * 1000)"
proof -
  from transformRawSession_Some [OF r sts] obtain d st en where
    d: "session_date tz raw = Inr d"
    and s: "s = session_record nid uid src raw sts (stage_totals sts) d st en"
    and long: "\<not> light (stage_totals sts) + deep (stage_totals sts) + rem (stage_totals sts) < 10800"
    by blast
  have dv: "d = iso_date (if getHours tz (ts raw * 1000) < 6
                       then ts raw * 1000 - 86400000 else ts raw * 1000)"
    using session_date_value [OF d] .
  show ?thesis
    using long unfolding s session_record_fields dv totals_eq
    by (simp add: add.commute add.left_commute)
qed

text \<open>
  C6, at a failing input. On a machine eight hours west of UTC, scenario B's session
  starts at 23:00 local time on 2024-03-01, which is 2024-03-02T07:00:00Z (unix time
  1709362800). The stage sums, \<open>durationSeconds = 13500\<close>,
  \<open>timeInBedSeconds = 13800\<close> and the efficiency 13500 / 13800 * 100 are as the claim
  says, and the local start hour is 23, so the night-of rule gives 2024-03-01; the
  session's \<open>date\<close> is 2024-03-02, the UTC day that \<open>toISOString\<close> prints. On a
  machine in UTC (unix time 1709334000 for the same local start) the date is 2024-03-01.
\<close>

theorem transformRawSession_scenario_b_west_of_utc:
  "(\<exists>s. transformRawSession (-28800) nid (scenario_night 1709362800) src uid = Inr (Some s) \<and>
        deepSeconds s = 1800 \<and> remSeconds s = 900 \<and> lightSeconds s = 10800 \<and>
        awakeSeconds s = 300 \<and> durationSeconds s = Some 13500 \<and>
        timeInBedSeconds s = 13800 \<and> efficiency s = Some (13500 / 13800 * 100) \<and>
        startedAt s = ''2024-03-02T07:00:00.000Z'' \<and> date s = ''2024-03-02'') \<and>
   getHours (-28800) (1709362800 * 1000) = 23 \<and>
   night_of (-28800) 1709362800 = ''2024-03-01'' \<and>
   (\<exists>s. transformRawSession 0 nid (scenario_night 1709334000) src uid = Inr (Some s) \<and>
        durationSeconds s = Some 13500 \<and> timeInBedSeconds s = 13800 \<and>
        efficiency s = Some (13500 / 13800 * 100) \<and> date s = ''2024-03-01'') \<and>
   night_of 0 1709334000 = ''2024-03-01''"
proof -
  have west: "\<exists>s. transformRawSession (-28800) nid (scenario_night 1709362800) src uid = Inr (Some s) \<and>
        deepSeconds s = 1800 \<and> remSeconds s = 900 \<and> lightSeconds s = 10800 \<and>
        awakeSeconds s = 300 \<and> durationSeconds s = Some 13500 \<and>
        timeInBedSeconds s = 13800 \<and> efficiency s = Some (13500 / 13800 * 100) \<and>
        startedAt s = ''2024-03-02T07:00:00.000Z'' \<and> date s = ''2024-03-02''"
    unfolding scenario_night_def scenario_eval by (simp add: session_record_fields)
  have hour: "getHours (-28800) (1709362800 * 1000) = 23"
    by (simp add: getHours_def)
  have utc: "\<exists>s. transformRawSession 0 nid (scenario_night 1709334000) src uid = Inr (Some s) \<and>
        durationSeconds s = Some 13500 \<and> timeInBedSeconds s = 13800 \<and>
        efficiency s = Some (13500 / 13800 * 100) \<and> date s = ''2024-03-01''"
    unfolding scenario_night_def scenario_eval_utc by (simp add: session_record_fields)
  show ?thesis
    by (intro conjI) (fact west hour utc night_of_facts)+
qed




section \<open>Results and errors of importFile\<close>


lemma io_bind_Inl: "m db = (Inl x, db1) \<Longrightarrow> io_bind m f db = (Inl x, db1)"
  by (simp add: io_bind_def)

lemma io_bind_Inr: "m db = (Inr x, db1) \<Longrightarrow> io_bind m f db = f x db1"
  by (simp add: io_bind_def)



lemma report_cases:
  "report e st db = (case onProgress e st of None \<Rightarrow> (Inr (), db) | Some x \<Rightarrow> (Inl x, db))"
  by (simp add: report_def io_return_def io_throw_def split: option.splits)


lemma report_quiet: "onProgress e st = None \<Longrightarrow> report e st db = (Inr (), db)"
  by (simp add: report_cases)






































section \<open>Workouts and daily metrics are stored without reconciliation\<close>















lemma sample_workout_id: "id_rec sample_workout = ''w-1''"
  by (simp add: sample_workout_def)





end
